theory Spec2Isabelle
  imports Complex_Main "HOL-Library.Char_ord" "HOL-Library.List_Lexorder"
begin

chapter \<open>Logger: correlation and scoring pipeline\<close>

text \<open>
  A shallow embedding of the correlation engine
  (\<^verbatim>\<open>evaluator/correlation-engine.js\<close>), the scoring engine and the three
  understanding analyzers (\<^verbatim>\<open>evaluator/scoring-engine.js\<close>), the response parsers
  of the prompt templates and the result store of \<^verbatim>\<open>background-analyzer.js\<close>.

  Conventions of the model.
  \<^item> A JavaScript number is a \<open>jsnum\<close>: a finite value (an exact rational), \<open>NaN\<close> or
    an infinity. Arithmetic on finite values is exact; the rounding of IEEE doubles is
    not modelled.
  \<^item> A JavaScript string is a \<open>string\<close>, a list of 8-bit code units.
  \<^item> A stored timestamp is the text that the store's \<^verbatim>\<open>CURRENT_TIMESTAMP\<close> default
    writes (\<^verbatim>\<open>YYYY-MM-DD HH:MM:SS\<close>, in UTC); \<^verbatim>\<open>ORDER BY timestamp\<close> is the order of
    these texts, code unit by code unit. What \<^verbatim>\<open>new Date(ts).getTime()\<close> makes of such
    a text depends on the time zone of the process, which reads a text without zone as
    local time: it is the parameter \<open>getTime\<close> of the correlation functions, a
    function from the text to milliseconds.
  \<^item> A column that may hold \<^verbatim>\<open>NULL\<close> and a field that may be absent is an
    \<open>option\<close>.
\<close>

section \<open>JavaScript numbers\<close>

datatype jsnum = Num rat | NaN | PosInf | NegInf

text \<open>\<^verbatim>\<open>a / b\<close> on finite operands: \<^verbatim>\<open>0 / 0\<close> is \<^verbatim>\<open>NaN\<close>, \<^verbatim>\<open>x / 0\<close> an infinity.\<close>

definition js_div :: "rat \<Rightarrow> rat \<Rightarrow> jsnum" where
  "js_div a b =
     (if b = 0 then (if a = 0 then NaN else if 0 < a then PosInf else NegInf)
      else Num (a / b))"

text \<open>\<^verbatim>\<open>x * c\<close> for a finite constant \<open>c\<close>.\<close>

fun js_times :: "jsnum \<Rightarrow> rat \<Rightarrow> jsnum" where
  "js_times (Num x) c = Num (x * c)"
| "js_times NaN c = NaN"
| "js_times PosInf c = (if c = 0 then NaN else if 0 < c then PosInf else NegInf)"
| "js_times NegInf c = (if c = 0 then NaN else if 0 < c then NegInf else PosInf)"

text \<open>\<^verbatim>\<open>Math.round\<close>: the nearest integer, a tie going up.\<close>

definition round_half_up :: "rat \<Rightarrow> rat" where
  "round_half_up x = of_int \<lfloor>x + 1 / 2\<rfloor>"

fun Math_round :: "jsnum \<Rightarrow> jsnum" where
  "Math_round (Num x) = Num (round_half_up x)"
| "Math_round v = v"

text \<open>\<^verbatim>\<open>x > c\<close>: every comparison with \<^verbatim>\<open>NaN\<close> is false.\<close>

fun js_gt :: "jsnum \<Rightarrow> rat \<Rightarrow> bool" where
  "js_gt (Num x) c = (c < x)"
| "js_gt PosInf c = True"
| "js_gt v c = False"

fun is_finite :: "jsnum \<Rightarrow> bool" where
  "is_finite (Num x) = True"
| "is_finite v = False"

section \<open>Strings\<close>

text \<open>
  The characters that the regular expression class \<^verbatim>\<open>\s\<close> and \<^verbatim>\<open>trim\<close> treat as
  white space, among the 8-bit code units: TAB, LF, VT, FF, CR, space and the
  no-break space.
\<close>

definition is_space :: "char \<Rightarrow> bool" where
  "is_space c = ((of_char c :: nat) \<in> {9, 10, 11, 12, 13, 32, 160})"

text \<open>\<^verbatim>\<open>str.replace(/\s+/g, ' ')\<close>: every maximal run of white space becomes one space.\<close>

function collapse_ws :: "string \<Rightarrow> string" where
  "collapse_ws [] = []"
| "collapse_ws (c # cs) =
     (if is_space c then CHR '' '' # collapse_ws (dropWhile is_space cs)
      else c # collapse_ws cs)"
  by pat_completeness auto
termination
  by (relation "measure length") (auto simp: le_imp_less_Suc length_dropWhile_le)

definition trim :: "string \<Rightarrow> string" where
  "trim s = rev (dropWhile is_space (rev (dropWhile is_space s)))"

definition normalize_ws :: "string \<Rightarrow> string" where
  "normalize_ws s = trim (collapse_ws s)"

text \<open>
  \<^verbatim>\<open>str.split(/\s+/)\<close>: the pieces between the maximal runs of white space. A run at
  the start or at the end leaves an empty piece there, and the empty string splits into
  the one-element list holding the empty string.
\<close>

function split_ws :: "string \<Rightarrow> string list" where
  "split_ws [] = [[]]"
| "split_ws (c # cs) =
     (if is_space c then [] # split_ws (dropWhile is_space cs)
      else (case split_ws cs of [] \<Rightarrow> [[c]] | t # ts \<Rightarrow> (c # t) # ts))"
  by pat_completeness auto
termination
  by (relation "measure length") (auto simp: le_imp_less_Suc length_dropWhile_le)

text \<open>\<^verbatim>\<open>new Set(xs)\<close>: the distinct elements in the order of their first occurrence.\<close>

definition new_Set :: "'a list \<Rightarrow> 'a list" where
  "new_Set xs = rev (remdups (rev xs))"

text \<open>\<^verbatim>\<open>str.split('\n').length\<close>: one more than the number of line feeds.\<close>

definition split_lines_length :: "string \<Rightarrow> nat" where
  "split_lines_length s = Suc (length (filter (\<lambda>c. c = CHR 0x0A) s))"

text \<open>\<^verbatim>\<open>text.includes(pat)\<close>.\<close>

fun str_includes :: "string \<Rightarrow> string \<Rightarrow> bool" where
  "str_includes [] pat = (pat = [])"
| "str_includes (c # cs) pat = (take (length pat) (c # cs) = pat \<or> str_includes cs pat)"

section \<open>Correlation engine\<close>

subsection \<open>Stored events\<close>

record prompt =
  p_id :: nat
  p_conversation_id :: string
  p_prompt_text :: string
  p_source :: "string option"
  p_timestamp :: string
  p_prompt_sequence_number :: "nat option"
  p_is_debugging :: bool

record edit =
  e_id :: nat
  e_conversation_id :: string
  e_file_path :: string
  e_old_string :: "string option"
  e_new_string :: "string option"
  e_source :: "string option"
  e_timestamp :: string

record database =
  db_prompts :: "prompt list"
  db_edits :: "edit list"

record conversation =
  cv_conversation_id :: string
  cv_prompts :: "prompt list"
  cv_edits :: "edit list"
  cv_source :: string
  cv_started_at :: "string option"
  cv_ended_at :: "string option"

text \<open>\<^verbatim>\<open>x || 'unknown'\<close> on a text column: \<^verbatim>\<open>NULL\<close> and the empty string are falsy.\<close>

definition or_unknown :: "string option \<Rightarrow> string" where
  "or_unknown s = (case s of None \<Rightarrow> ''unknown'' | Some t \<Rightarrow> if t = [] then ''unknown'' else t)"

definition last_option :: "'a list \<Rightarrow> 'a option" where
  "last_option xs = (if xs = [] then None else Some (last xs))"

text \<open>
  \<^verbatim>\<open>getConversationData\<close>: the prompts and the edits of one conversation, each in
  the order of the stored timestamp texts (\<^verbatim>\<open>ORDER BY timestamp\<close> on a text column
  compares the texts, not the instants they denote). \<^verbatim>\<open>ended_at\<close> is
  \<^verbatim>\<open>edits[last]?.timestamp || prompts[last]?.timestamp\<close>, where an empty text is falsy.
\<close>

definition getConversationData :: "database \<Rightarrow> string \<Rightarrow> conversation" where
  "getConversationData db conversationId =
     (let prompts = sort_key p_timestamp
                      (filter (\<lambda>p. p_conversation_id p = conversationId) (db_prompts db));
          edits = sort_key e_timestamp
                      (filter (\<lambda>e. e_conversation_id e = conversationId) (db_edits db))
      in \<lparr> cv_conversation_id = conversationId,
           cv_prompts = prompts,
           cv_edits = edits,
           cv_source = (case prompts of [] \<Rightarrow> ''unknown'' | p # _ \<Rightarrow> or_unknown (p_source p)),
           cv_started_at = (case prompts of [] \<Rightarrow> None | p # _ \<Rightarrow> Some (p_timestamp p)),
           cv_ended_at = (case last_option edits of
                            Some e \<Rightarrow> if e_timestamp e = []
                                      then map_option p_timestamp (last_option prompts)
                                      else Some (e_timestamp e)
                          | None \<Rightarrow> map_option p_timestamp (last_option prompts)) \<rparr>)"


subsection \<open>Correlations\<close>

record related_edit =
  r_edit_id :: nat
  r_file_path :: string
  r_timestamp :: string
  r_old_string :: "string option"
  r_new_string :: "string option"
  r_time_after_prompt :: int

record stats =
  s_total_edits :: nat
  s_files_changed :: nat
  s_lines_added :: nat
  s_lines_removed :: nat
  s_time_to_first_edit :: "int option"
  s_edit_duration :: "int option"

record correlation =
  c_prompt_id :: nat
  c_prompt_text :: string
  c_prompt_timestamp :: string
  c_conversation_id :: string
  c_source :: string
  c_related_edits :: "related_edit list"
  c_stats :: stats

text \<open>
  What \<^verbatim>\<open>new Date(text).getTime()\<close> returns for a stored timestamp text, in
  milliseconds. The texts of the store are well formed, so the result is a number.
\<close>

type_synonym clock = "string \<Rightarrow> int"

text \<open>
  The window test of the inner loop, \<^verbatim>\<open>editTime >= promptTime && editTime < nextPromptTime\<close>;
  \<open>None\<close> is the \<^verbatim>\<open>Infinity\<close> of the last prompt.
\<close>

definition in_window :: "int \<Rightarrow> int option \<Rightarrow> int \<Rightarrow> bool" where
  "in_window promptTime nextPromptTime editTime =
     (promptTime \<le> editTime \<and>
      (case nextPromptTime of None \<Rightarrow> True | Some n \<Rightarrow> editTime < n))"

text \<open>The entry pushed for an edit; \<^verbatim>\<open>time_after_prompt\<close> is \<^verbatim>\<open>editTime - promptTime\<close>.\<close>

definition related_of :: "clock \<Rightarrow> int \<Rightarrow> edit \<Rightarrow> related_edit" where
  "related_of getTime promptTime e =
     \<lparr> r_edit_id = e_id e, r_file_path = e_file_path e, r_timestamp = e_timestamp e,
       r_old_string = e_old_string e, r_new_string = e_new_string e,
       r_time_after_prompt = getTime (e_timestamp e) - promptTime \<rparr>"

text \<open>\<^verbatim>\<open>s ? s.split('\n').length : 0\<close>: \<^verbatim>\<open>NULL\<close> and the empty string count no line.\<close>

definition line_count :: "string option \<Rightarrow> nat" where
  "line_count s = (case s of None \<Rightarrow> 0 | Some t \<Rightarrow> if t = [] then 0 else split_lines_length t)"

definition count_lines :: "stats \<Rightarrow> related_edit \<Rightarrow> stats" where
  "count_lines st r =
     (let oldLines = line_count (r_old_string r); newLines = line_count (r_new_string r)
      in if oldLines < newLines
         then st\<lparr>s_lines_added := s_lines_added st + (newLines - oldLines)\<rparr>
         else st\<lparr>s_lines_removed := s_lines_removed st + (oldLines - newLines)\<rparr>)"

definition empty_stats :: stats where
  "empty_stats = \<lparr> s_total_edits = 0, s_files_changed = 0, s_lines_added = 0,
                   s_lines_removed = 0, s_time_to_first_edit = None, s_edit_duration = None \<rparr>"

definition calculate_stats :: "related_edit list \<Rightarrow> stats" where
  "calculate_stats rs =
     (if rs = [] then empty_stats
      else foldl count_lines
             (empty_stats\<lparr> s_total_edits := length rs,
                           s_files_changed := length (new_Set (map r_file_path rs)),
                           s_time_to_first_edit := Some (r_time_after_prompt (hd rs)),
                           s_edit_duration := Some (r_time_after_prompt (last rs)) \<rparr>)
             rs)"

text \<open>The body of the loop over \<^verbatim>\<open>conv.prompts\<close>, for the prompt at \<open>promptIndex\<close>.\<close>

definition correlate_prompt :: "clock \<Rightarrow> conversation \<Rightarrow> nat \<Rightarrow> correlation" where
  "correlate_prompt getTime conv promptIndex =
     (let prompt = cv_prompts conv ! promptIndex;
          promptTime = getTime (p_timestamp prompt);
          nextPromptTime = (if Suc promptIndex < length (cv_prompts conv)
                            then Some (getTime (p_timestamp (cv_prompts conv ! Suc promptIndex)))
                            else None);
          related = map (related_of getTime promptTime)
                      (filter (\<lambda>e. in_window promptTime nextPromptTime (getTime (e_timestamp e)))
                         (cv_edits conv))
      in \<lparr> c_prompt_id = p_id prompt,
           c_prompt_text = p_prompt_text prompt,
           c_prompt_timestamp = p_timestamp prompt,
           c_conversation_id = cv_conversation_id conv,
           c_source = cv_source conv,
           c_related_edits = related,
           c_stats = calculate_stats related \<rparr>)"

definition correlate_conversation :: "clock \<Rightarrow> conversation \<Rightarrow> correlation list" where
  "correlate_conversation getTime conv =
     map (correlate_prompt getTime conv) [0..<length (cv_prompts conv)]"


subsection \<open>Effectiveness\<close>

text \<open>
  A field of the effectiveness report that is the number \<^verbatim>\<open>0\<close> at first and later the
  string that \<^verbatim>\<open>toFixed(2)\<close> prints for a quotient: \<open>ToFixed2 q\<close> stands for the string
  \<^verbatim>\<open>(q).toFixed(2)\<close>.
\<close>

datatype jsfield = NumberVal jsnum | ToFixed2 rat

record effectiveness =
  total_prompts :: nat
  prompts_with_edits :: nat
  prompts_without_edits :: nat
  avg_edits_per_prompt :: jsfield
  avg_files_per_prompt :: jsfield
  avg_time_to_first_edit :: jsnum
  effectiveness_score :: jsnum

record eff_acc =
  a_with_edits :: nat
  a_without_edits :: nat
  a_totalEdits :: nat
  a_totalFiles :: nat
  a_totalTime :: int
  a_timeCount :: nat

text \<open>The body of the loop over the correlations in \<^verbatim>\<open>analyzeEffectiveness\<close>.\<close>

definition eff_step :: "eff_acc \<Rightarrow> correlation \<Rightarrow> eff_acc" where
  "eff_step a corr =
     (if c_related_edits corr \<noteq> []
      then (let a1 = a\<lparr> a_with_edits := a_with_edits a + 1,
                        a_totalEdits := a_totalEdits a + s_total_edits (c_stats corr),
                        a_totalFiles := a_totalFiles a + s_files_changed (c_stats corr) \<rparr>
            in case s_time_to_first_edit (c_stats corr) of
                 Some t \<Rightarrow> a1\<lparr> a_totalTime := a_totalTime a1 + t,
                               a_timeCount := a_timeCount a1 + 1 \<rparr>
               | None \<Rightarrow> a1)
      else a\<lparr> a_without_edits := a_without_edits a + 1 \<rparr>)"

definition analyzeEffectiveness :: "correlation list \<Rightarrow> effectiveness" where
  "analyzeEffectiveness correlations =
     (let a = foldl eff_step
                \<lparr> a_with_edits = 0, a_without_edits = 0, a_totalEdits = 0,
                  a_totalFiles = 0, a_totalTime = 0, a_timeCount = 0 \<rparr> correlations
      in \<lparr> total_prompts = length correlations,
           prompts_with_edits = a_with_edits a,
           prompts_without_edits = a_without_edits a,
           avg_edits_per_prompt =
             (if 0 < a_with_edits a
              then ToFixed2 (of_nat (a_totalEdits a) / of_nat (a_with_edits a))
              else NumberVal (Num 0)),
           avg_files_per_prompt =
             (if 0 < a_with_edits a
              then ToFixed2 (of_nat (a_totalFiles a) / of_nat (a_with_edits a))
              else NumberVal (Num 0)),
           avg_time_to_first_edit =
             (if 0 < a_timeCount a
              then Math_round (js_div (of_int (a_totalTime a)) (of_nat (a_timeCount a)))
              else Num 0),
           effectiveness_score =
             Math_round (js_times (js_div (of_nat (a_with_edits a))
                                          (of_nat (length correlations))) 100) \<rparr>)"

subsection \<open>Similarity and reversals\<close>

text \<open>\<^verbatim>\<open>calculateSimilarity\<close>: the Jaccard ratio of the two token sets.\<close>

definition calculateSimilarity :: "string \<Rightarrow> string \<Rightarrow> jsnum" where
  "calculateSimilarity str1 str2 =
     (let set1 = new_Set (split_ws str1);
          set2 = new_Set (split_ws str2);
          intersection = new_Set (filter (\<lambda>x. x \<in> set set2) set1);
          union = new_Set (set1 @ set2)
      in js_div (of_nat (length intersection)) (of_nat (length union)))"

text \<open>\<^verbatim>\<open>!str\<close>: \<^verbatim>\<open>null\<close>, \<^verbatim>\<open>undefined\<close> and the empty string are falsy.\<close>

definition falsy_string :: "string option \<Rightarrow> bool" where
  "falsy_string s = (case s of None \<Rightarrow> True | Some t \<Rightarrow> t = [])"

definition isSimilarCode :: "string option \<Rightarrow> string option \<Rightarrow> bool" where
  "isSimilarCode str1 str2 =
     (if falsy_string str1 \<or> falsy_string str2 then False
      else (let normalized1 = normalize_ws (the str1);
                normalized2 = normalize_ws (the str2)
            in if normalized1 = normalized2 then True
               else js_gt (calculateSimilarity normalized1 normalized2) (9 / 10)))"

record history_entry =
  h_prompt_id :: nat
  h_prompt_text :: string
  h_timestamp :: string
  h_old_string :: "string option"
  h_new_string :: "string option"

record reversal =
  rv_index :: nat
  rv_prompt_reverted_from :: string
  rv_prompt_reverted_to :: string
  rv_explanation :: string

text \<open>
  \<^verbatim>\<open>detectReversals\<close>: the loop \<^verbatim>\<open>for (let i = 1; i < editHistory.length; i++)\<close>
  over the adjacent pairs.
\<close>

definition detectReversals :: "history_entry list \<Rightarrow> reversal list" where
  "detectReversals editHistory =
     map (\<lambda>i. \<lparr> rv_index = i,
                 rv_prompt_reverted_from = h_prompt_text (editHistory ! (i - 1)),
                 rv_prompt_reverted_to = h_prompt_text (editHistory ! i),
                 rv_explanation = ''Code reverted to earlier state'' \<rparr>)
       (filter (\<lambda>i. isSimilarCode (h_new_string (editHistory ! i))
                                    (h_old_string (editHistory ! (i - 1))))
          [1..<length editHistory])"

section \<open>Understanding analyzers\<close>

text \<open>
  The three analyzers (\<^verbatim>\<open>CriticalThinkingAnalyzer\<close>, \<^verbatim>\<open>DebuggingReasoningAnalyzer\<close>,
  \<^verbatim>\<open>MistakeCatcherAnalyzer\<close>) are three copies of one class body that differ in the
  names of the judged fields, in the tables of the rule-based analysis, and in the bonus
  term of the score and of the confidence. The model has one definition for each method,
  with the analyzer as its first argument.
\<close>

datatype analyzer = CriticalThinking | DebuggingReasoning | MistakeCatcher

subsection \<open>The external judgment and its parser\<close>

text \<open>
  A value that \<^verbatim>\<open>JSON.parse\<close> returns; of an array and of a nested object only
  \<^verbatim>\<open>typeof\<close> and truthiness are read.
\<close>

datatype json = JNull | JBool bool | JNumber rat | JString string | JArray | JObject

text \<open>
  What one call of \<^verbatim>\<open>analyzePromptWithAI\<close> meets:
  \<^item> \<open>CallFailed\<close>: the request throws (connection error, time-out after 15 s, error
    status, no response body), so that the \<^verbatim>\<open>catch\<close> branch runs;
  \<^item> \<open>Unparseable reason\<close>: the request succeeds and \<^verbatim>\<open>parseResponse\<close> finds no
    JSON object in the text or \<^verbatim>\<open>JSON.parse\<close> throws;
  \<^item> \<open>Parsed obj\<close>: \<^verbatim>\<open>JSON.parse\<close> returns the object \<open>obj\<close>, given by its fields.
\<close>

datatype reply = CallFailed | Unparseable string | Parsed "(string \<times> json) list"

record analysis =
  an_relevant :: bool
  an_type :: string
  an_severity :: string
  an_qualityScore :: rat
  an_evidence :: string
  an_reasoning :: string
  an_parseError :: bool
  an_fallback :: bool

text \<open>
  \<open>an_relevant\<close> is \<^verbatim>\<open>isCriticalThinking\<close>, \<^verbatim>\<open>isSystematic\<close> or \<^verbatim>\<open>caughtMistake\<close>;
  \<open>an_type\<close> is \<^verbatim>\<open>type\<close> or \<^verbatim>\<open>mistakeType\<close>; \<open>an_qualityScore\<close> is \<^verbatim>\<open>qualityScore\<close> or
  \<^verbatim>\<open>debuggingQuality\<close>; \<open>an_severity\<close> exists for the mistake catcher only: for
  the other two analyzers it is the constant \<open>''none''\<close>, and no function of theirs reads
  it. \<open>an_parseError\<close> and \<open>an_fallback\<close> are the
  truthiness of the fields \<^verbatim>\<open>parseError\<close> and \<^verbatim>\<open>fallback\<close>.
\<close>

definition flag_field :: "analyzer \<Rightarrow> string" where
  "flag_field k = (case k of CriticalThinking \<Rightarrow> ''isCriticalThinking''
                   | DebuggingReasoning \<Rightarrow> ''isSystematic''
                   | MistakeCatcher \<Rightarrow> ''caughtMistake'')"

definition type_field :: "analyzer \<Rightarrow> string" where
  "type_field k = (case k of MistakeCatcher \<Rightarrow> ''mistakeType'' | _ \<Rightarrow> ''type'')"

definition quality_field :: "analyzer \<Rightarrow> string" where
  "quality_field k = (case k of DebuggingReasoning \<Rightarrow> ''debuggingQuality'' | _ \<Rightarrow> ''qualityScore'')"

definition valid_types :: "analyzer \<Rightarrow> string list" where
  "valid_types k =
     (case k of
        CriticalThinking \<Rightarrow> [''tradeoff'', ''security'', ''edge_case'', ''architecture'',
                              ''questioning_ai'', ''learning'', ''none'']
      | DebuggingReasoning \<Rightarrow> [''hypothesis'', ''testing'', ''root_cause'', ''narrowing'',
                                ''trial_error'', ''helpless'']
      | MistakeCatcher \<Rightarrow> [''security'', ''bug'', ''logic'', ''edge_case'', ''prevention'',
                            ''none''])"

definition default_type :: "analyzer \<Rightarrow> string" where
  "default_type k = (case k of DebuggingReasoning \<Rightarrow> ''helpless'' | _ \<Rightarrow> ''none'')"

definition valid_severities :: "string list" where
  "valid_severities = [''high'', ''medium'', ''low'', ''none'']"

fun truthy :: "json \<Rightarrow> bool" where
  "truthy JNull = False"
| "truthy (JBool b) = b"
| "truthy (JNumber x) = (x \<noteq> 0)"
| "truthy (JString s) = (s \<noteq> [])"
| "truthy JArray = True"
| "truthy JObject = True"

definition field_truthy :: "(string \<times> json) list \<Rightarrow> string \<Rightarrow> bool" where
  "field_truthy obj name = (case map_of obj name of None \<Rightarrow> False | Some v \<Rightarrow> truthy v)"

definition getDefaultResponse :: "analyzer \<Rightarrow> string \<Rightarrow> analysis" where
  "getDefaultResponse k reason =
     \<lparr> an_relevant = False, an_type = default_type k, an_severity = ''none'',
       an_qualityScore = 0, an_evidence = ''none'',
       an_reasoning = ''Parse failed: '' @ reason,
       an_parseError = True, an_fallback = False \<rparr>"

text \<open>
  \<^verbatim>\<open>parseResponse\<close> after the call has returned: a field of the wrong type or out of
  range is replaced by its default, every other field of the parsed object is kept.
\<close>

definition validate :: "analyzer \<Rightarrow> (string \<times> json) list \<Rightarrow> analysis" where
  "validate k obj =
     \<lparr> an_relevant = (case map_of obj (flag_field k) of Some (JBool b) \<Rightarrow> b | _ \<Rightarrow> False),
       an_type = (case map_of obj (type_field k) of
                    Some (JString t) \<Rightarrow> if t \<in> set (valid_types k) then t else default_type k
                  | _ \<Rightarrow> default_type k),
       an_severity = (if k = MistakeCatcher
                      then (case map_of obj ''severity'' of
                              Some (JString t) \<Rightarrow> if t \<in> set valid_severities then t else ''none''
                            | _ \<Rightarrow> ''none'')
                      else ''none''),
       an_qualityScore = (case map_of obj (quality_field k) of
                            Some (JNumber q) \<Rightarrow> if q < 0 \<or> 10 < q then 0 else q
                          | _ \<Rightarrow> 0),
       an_evidence = (case map_of obj ''evidence'' of Some (JString t) \<Rightarrow> t | _ \<Rightarrow> ''none''),
       an_reasoning = (case map_of obj ''reasoning'' of
                         Some (JString t) \<Rightarrow> t | _ \<Rightarrow> ''No reasoning provided''),
       an_parseError = field_truthy obj ''parseError'',
       an_fallback = field_truthy obj ''fallback'' \<rparr>"

subsection \<open>Rule-based analysis\<close>

text \<open>
  The pattern tables of \<^verbatim>\<open>ruleBasedAnalysis\<close>, in the order of the source: for each
  type the number of its regular expressions. What an expression matches is the regular
  expression engine's business; it is the parameter \<open>rx\<close>, where \<open>rx k ty i text\<close> is
  \<^verbatim>\<open>patterns[ty][i].test(text)\<close> in the analyzer \<open>k\<close>.
\<close>

type_synonym regex_test = "analyzer \<Rightarrow> string \<Rightarrow> nat \<Rightarrow> string \<Rightarrow> bool"

definition patterns :: "analyzer \<Rightarrow> (string \<times> nat) list" where
  "patterns k =
     (case k of
        CriticalThinking \<Rightarrow> [(''tradeoff'', 4), (''security'', 2), (''edge_case'', 3),
                              (''architecture'', 3), (''questioning_ai'', 3)]
      | DebuggingReasoning \<Rightarrow> [(''hypothesis'', 4), (''testing'', 4), (''root_cause'', 4),
                                (''narrowing'', 4), (''trial_error'', 3)]
      | MistakeCatcher \<Rightarrow> [(''security'', 3), (''bug'', 3), (''logic'', 2), (''edge_case'', 2),
                            (''prevention'', 3)])"

definition type_matches :: "regex_test \<Rightarrow> analyzer \<Rightarrow> string \<Rightarrow> string \<times> nat \<Rightarrow> bool" where
  "type_matches rx k text entry = list_ex (\<lambda>i. rx k (fst entry) i text) [0..<snd entry]"

text \<open>The first type of the table with a matching expression (the two nested loops).\<close>

definition first_match :: "regex_test \<Rightarrow> analyzer \<Rightarrow> string \<Rightarrow> (string \<times> nat) list \<Rightarrow> string option" where
  "first_match rx k text table = map_option fst (find (type_matches rx k text) table)"

definition bonus :: "bool \<Rightarrow> rat \<Rightarrow> rat" where
  "bonus b n = (if b then n else 0)"

definition ruleBasedAnalysis :: "regex_test \<Rightarrow> analyzer \<Rightarrow> string \<Rightarrow> analysis" where
  "ruleBasedAnalysis rx k text =
     (case k of
        CriticalThinking \<Rightarrow>
          (case first_match rx k text (patterns k) of
             Some ty \<Rightarrow>
               \<lparr> an_relevant = True, an_type = ty, an_severity = ''none'',
                 an_qualityScore =
                   min 10 (5 + bonus (str_includes text ''trade-off'' \<or> str_includes text ''tradeoff'') 2
                             + bonus (str_includes text ''security'' \<or> str_includes text ''performance'') 1
                             + bonus (str_includes text ''instead of'' \<or> str_includes text ''rather than'') 1
                             + bonus (100 < length text) 1),
                 an_evidence = ''Matched regex pattern'',
                 an_reasoning = ''Rule-based: matched '' @ ty @ '' pattern'',
                 an_parseError = False, an_fallback = True \<rparr>
           | None \<Rightarrow>
               \<lparr> an_relevant = False, an_type = ''none'', an_severity = ''none'',
                 an_qualityScore = 0, an_evidence = ''none'',
                 an_reasoning = ''No critical thinking patterns detected'',
                 an_parseError = False, an_fallback = True \<rparr>)
      | MistakeCatcher \<Rightarrow>
          (case first_match rx k text (patterns k) of
             Some ty \<Rightarrow>
               \<lparr> an_relevant = True, an_type = ty,
                 an_severity = (if ty = ''security'' then ''high''
                                else if ty = ''bug'' \<or> ty = ''logic'' then ''medium''
                                else if ty = ''edge_case'' \<or> ty = ''prevention'' then ''low''
                                else ''none''),
                 an_qualityScore = (if ty = ''security'' then 8
                                    else if ty = ''bug'' \<or> ty = ''logic'' then 7
                                    else if ty = ''edge_case'' \<or> ty = ''prevention'' then 6
                                    else 0),
                 an_evidence = ''Matched regex pattern'',
                 an_reasoning = ''Rule-based: matched '' @ ty @ '' pattern'',
                 an_parseError = False, an_fallback = True \<rparr>
           | None \<Rightarrow>
               \<lparr> an_relevant = False, an_type = ''none'', an_severity = ''none'',
                 an_qualityScore = 0, an_evidence = ''none'',
                 an_reasoning = ''No mistake-catching patterns detected'',
                 an_parseError = False, an_fallback = True \<rparr>)
      | DebuggingReasoning \<Rightarrow>
          (case first_match rx k text (filter (\<lambda>e. fst e \<noteq> ''trial_error'') (patterns k)) of
             Some ty \<Rightarrow>
               \<lparr> an_relevant = True, an_type = ty, an_severity = ''none'',
                 an_qualityScore =
                   min 10 (6 + bonus (ty = ''root_cause'') 2 + bonus (ty = ''narrowing'') 1
                             + bonus (100 < length text) 1),
                 an_evidence = ''Matched regex pattern'',
                 an_reasoning = ''Rule-based: '' @ ty @ '' pattern detected'',
                 an_parseError = False, an_fallback = True \<rparr>
           | None \<Rightarrow>
               (if type_matches rx k text (''trial_error'', 3)
                then \<lparr> an_relevant = False, an_type = ''trial_error'', an_severity = ''none'',
                       an_qualityScore = 3, an_evidence = ''Matched regex pattern'',
                       an_reasoning = ''Rule-based: trial_error pattern detected'',
                       an_parseError = False, an_fallback = True \<rparr>
                else \<lparr> an_relevant = False, an_type = ''helpless'', an_severity = ''none'',
                       an_qualityScore = 0, an_evidence = ''none'',
                       an_reasoning = ''Rule-based: helpless pattern detected'',
                       an_parseError = False, an_fallback = True \<rparr>)))"

text \<open>
  \<^verbatim>\<open>analyzePromptWithAI\<close>: the \<^verbatim>\<open>try\<close> block returns what \<^verbatim>\<open>parseResponse\<close> makes of
  the reply, the \<^verbatim>\<open>catch\<close> block the rule-based analysis.
\<close>

definition analyzePromptWithAI :: "regex_test \<Rightarrow> analyzer \<Rightarrow> reply \<Rightarrow> string \<Rightarrow> analysis" where
  "analyzePromptWithAI rx k r promptText =
     (case r of
        CallFailed \<Rightarrow> ruleBasedAnalysis rx k promptText
      | Unparseable reason \<Rightarrow> getDefaultResponse k reason
      | Parsed obj \<Rightarrow> validate k obj)"

subsection \<open>The loop over the prompts\<close>

record finding =
  f_text :: string
  f_type :: string
  f_severity :: string
  f_qualityScore :: rat
  f_evidence :: string
  f_reasoning :: string
  f_sequence :: "nat option"

text \<open>
  The state of the loop of \<^verbatim>\<open>analyzeAllPromptsWithAI\<close>. \<open>l_calls\<close> is not a variable of
  the source: it records the texts handed to \<^verbatim>\<open>analyzePromptWithAI\<close>, in order, so that
  the model can say which prompts reached the external capability.
\<close>

record loop_state =
  l_analyses :: "finding list"
  l_aiSuccessCount :: nat
  l_fallbackCount :: nat
  l_calls :: "string list"

text \<open>
  The external capability is the parameter \<open>ai\<close>: \<open>ai n text\<close> is what the call number
  \<open>n\<close> of the run (counted from 0) meets when it submits \<open>text\<close>.
\<close>

type_synonym capability = "nat \<Rightarrow> string \<Rightarrow> reply"

definition loop_step :: "regex_test \<Rightarrow> capability \<Rightarrow> analyzer \<Rightarrow> loop_state \<Rightarrow> prompt \<Rightarrow> loop_state" where
  "loop_step rx ai k st prompt =
     (let text = p_prompt_text prompt
      in if length text < 10 then st
         else (let analysis = analyzePromptWithAI rx k (ai (length (l_calls st)) text) text;
                   st1 = st\<lparr> l_calls := l_calls st @ [text] \<rparr>;
                   st2 = (if an_parseError analysis
                          then st1\<lparr> l_fallbackCount := l_fallbackCount st1 + 1 \<rparr>
                          else st1\<lparr> l_aiSuccessCount := l_aiSuccessCount st1 + 1 \<rparr>)
               in if an_relevant analysis
                  then st2\<lparr> l_analyses := l_analyses st2 @
                              [\<lparr> f_text = text, f_type = an_type analysis,
                                 f_severity = an_severity analysis,
                                 f_qualityScore = an_qualityScore analysis,
                                 f_evidence = an_evidence analysis,
                                 f_reasoning = an_reasoning analysis,
                                 f_sequence = p_prompt_sequence_number prompt \<rparr>] \<rparr>
                  else st2))"

definition initial_state :: loop_state where
  "initial_state = \<lparr> l_analyses = [], l_aiSuccessCount = 0, l_fallbackCount = 0, l_calls = [] \<rparr>"

definition run_loop :: "regex_test \<Rightarrow> capability \<Rightarrow> analyzer \<Rightarrow> prompt list \<Rightarrow> loop_state" where
  "run_loop rx ai k prompts = foldl (loop_step rx ai k) initial_state prompts"

text \<open>\<^verbatim>\<open>m[key] = (m[key] || 0) + 1\<close> on an object whose keys keep their insertion order.\<close>

fun bump :: "(string \<times> nat) list \<Rightarrow> string \<Rightarrow> (string \<times> nat) list" where
  "bump [] key = [(key, 1)]"
| "bump ((k', n) # m) key = (if k' = key then (k', n + 1) # m else (k', n) # bump m key)"

record reasoning_entry =
  re_prompt :: string
  re_type :: string
  re_severity :: string
  re_score :: rat
  re_evidence :: string
  re_reasoning :: string

definition reasoning_of :: "finding \<Rightarrow> reasoning_entry" where
  "reasoning_of a =
     \<lparr> re_prompt = take 100 (f_text a) @ (if 100 < length (f_text a) then ''...'' else []),
       re_type = f_type a, re_severity = f_severity a, re_score = f_qualityScore a,
       re_evidence = f_evidence a, re_reasoning = f_reasoning a \<rparr>"

text \<open>
  The object that \<^verbatim>\<open>analyzeAllPromptsWithAI\<close> returns. The \<open>g_\<close> fields are those of
  the inner object (\<^verbatim>\<open>criticalQuestions\<close>, \<^verbatim>\<open>systematicDebugging\<close>, \<^verbatim>\<open>mistakesCaught\<close>);
  \<open>g_breakdown\<close> is the count by type, \<open>g_bySeverity\<close> the count by severity, which only
  the mistake catcher builds.
\<close>

record ai_analysis =
  g_count :: nat
  g_examples :: "string list"
  g_quality :: rat
  g_breakdown :: "(string \<times> nat) list"
  g_bySeverity :: "(string \<times> nat) list"
  g_aiReasoning :: "reasoning_entry list"
  allAnalyses :: "finding list"
  ai_method :: string
  successRate :: rat

definition aggregate :: "analyzer \<Rightarrow> nat \<Rightarrow> loop_state \<Rightarrow> ai_analysis" where
  "aggregate k promptsLength st =
     (let analyses = l_analyses st
      in \<lparr> g_count = length analyses,
           g_examples = map f_text (take 5 analyses),
           g_quality = (if 0 < length analyses
                        then sum_list (map f_qualityScore analyses) / of_nat (length analyses)
                        else 0),
           g_breakdown = foldl bump [] (map f_type analyses),
           g_bySeverity = (if k = MistakeCatcher then foldl bump [] (map f_severity analyses)
                           else []),
           g_aiReasoning = map reasoning_of (take 5 analyses),
           allAnalyses = analyses,
           ai_method = (if l_aiSuccessCount st < l_fallbackCount st then ''fallback'' else ''ai''),
           successRate = (if 0 < promptsLength
                          then of_nat (l_aiSuccessCount st) / of_nat promptsLength
                          else 0) \<rparr>)"

definition analyzeAllPromptsWithAI :: "regex_test \<Rightarrow> capability \<Rightarrow> analyzer \<Rightarrow> prompt list \<Rightarrow> ai_analysis" where
  "analyzeAllPromptsWithAI rx ai k prompts = aggregate k (length prompts) (run_loop rx ai k prompts)"

subsection \<open>Score, verdict and confidence\<close>

definition count_steps :: "nat \<Rightarrow> rat \<Rightarrow> rat \<Rightarrow> rat \<Rightarrow> rat" where
  "count_steps n a b c = (if 5 \<le> n then a else if 3 \<le> n then b else if 1 \<le> n then c else 0)"

text \<open>\<^verbatim>\<open>mistakesCaught.breakdown.bySeverity?.high || 0\<close>.\<close>

definition highSeverityCount :: "ai_analysis \<Rightarrow> nat" where
  "highSeverityCount a = (case map_of (g_bySeverity a) ''high'' of None \<Rightarrow> 0 | Some n \<Rightarrow> n)"

definition calculateScoreFromAI :: "analyzer \<Rightarrow> ai_analysis \<Rightarrow> rat" where
  "calculateScoreFromAI k a =
     (if allAnalyses a = [] then 0
      else (let countScore = count_steps (g_count a) 4 3 2;
                qualityScore = g_quality a / 10 * 4;
                extra = (if k = MistakeCatcher
                         then min 2 (of_nat (highSeverityCount a) * (1 / 2))
                         else min 2 (of_nat (length (g_breakdown a)) * (1 / 2)));
                totalScore = min 10 (countScore + qualityScore + extra)
            in round_half_up (totalScore * 10) / 10))"

definition determineVerdict :: "analyzer \<Rightarrow> rat \<Rightarrow> string" where
  "determineVerdict k sc =
     (case k of
        CriticalThinking \<Rightarrow>
          (if 15 / 2 \<le> sc then ''understands'' else if 5 \<le> sc then ''uncertain''
           else ''copy-paste'')
      | MistakeCatcher \<Rightarrow>
          (if 8 \<le> sc then ''highly_critical'' else if 5 \<le> sc then ''somewhat_critical''
           else ''not_critical'')
      | DebuggingReasoning \<Rightarrow>
          (if 8 \<le> sc then ''systematic'' else if 4 \<le> sc then ''trial_and_error''
           else ''helpless''))"

definition calculateConfidenceFromAI :: "analyzer \<Rightarrow> ai_analysis \<Rightarrow> rat" where
  "calculateConfidenceFromAI k a =
     (let c0 = 3 / 10;
          c1 = c0 + count_steps (g_count a) (3 / 10) (2 / 10) (1 / 10);
          c2 = c1 + (if k = MistakeCatcher
                     then (if 2 \<le> highSeverityCount a then 2 / 10
                           else if 1 \<le> highSeverityCount a then 1 / 10 else 0)
                     else (if 3 \<le> length (g_breakdown a) then 2 / 10
                           else if 2 \<le> length (g_breakdown a) then 1 / 10 else 0));
          c3 = c2 + (if 8 / 10 < successRate a then 15 / 100
                     else if 5 / 10 < successRate a then 5 / 100 else 0)
      in min (95 / 100) (round_half_up (c3 * 100) / 100))"

subsection \<open>The method \<^verbatim>\<open>analyze\<close>\<close>

record analyzer_result =
  score :: rat
  confidence :: "rat option"
  verdict :: string
  res_count :: nat
  res_examples :: "string list"
  res_quality :: rat
  res_breakdown :: "(string \<times> nat) list"
  res_bySeverity :: "(string \<times> nat) list"
  res_aiReasoning :: "reasoning_entry list"
  analysisMethod :: string
  promptsAnalyzed :: "nat option"
  debuggingSessionCount :: "nat option"
  aiSuccessRate :: "rat option"
  res_error :: "string option"

text \<open>
  The result for a conversation without prompts; only the critical-thinking analyzer
  gives it a \<^verbatim>\<open>confidence\<close> field.
\<close>

definition no_prompts_result :: "analyzer \<Rightarrow> analyzer_result" where
  "no_prompts_result k =
     \<lparr> score = 0,
       confidence = (if k = CriticalThinking then Some 0 else None),
       verdict = (case k of CriticalThinking \<Rightarrow> ''uncertain''
                  | MistakeCatcher \<Rightarrow> ''not_critical''
                  | DebuggingReasoning \<Rightarrow> ''helpless''),
       res_count = 0, res_examples = [], res_quality = 0, res_breakdown = [],
       res_bySeverity = [], res_aiReasoning = [],
       analysisMethod = ''none'', promptsAnalyzed = None, debuggingSessionCount = None,
       aiSuccessRate = None, res_error = Some ''No prompts found'' \<rparr>"

text \<open>
  The debugging analyzer judges the prompts marked as debugging, or all prompts when none
  is marked; the other two judge all prompts.
\<close>

definition promptsToAnalyze :: "analyzer \<Rightarrow> prompt list \<Rightarrow> prompt list" where
  "promptsToAnalyze k prompts =
     (if k = DebuggingReasoning \<and> filter p_is_debugging prompts \<noteq> []
      then filter p_is_debugging prompts else prompts)"

text \<open>
  \<^verbatim>\<open>analyze\<close>, given the rows that its queries return: the prompts of the conversation
  in the order of their sequence numbers and, for the debugging analyzer, the number of
  debugging sessions.
\<close>

definition analyze :: "regex_test \<Rightarrow> capability \<Rightarrow> analyzer \<Rightarrow> nat \<Rightarrow> prompt list \<Rightarrow> analyzer_result" where
  "analyze rx ai k debuggingSessions prompts =
     (if prompts = [] then no_prompts_result k
      else (let todo = promptsToAnalyze k prompts;
                aiAnalysis = analyzeAllPromptsWithAI rx ai k todo;
                sc = calculateScoreFromAI k aiAnalysis
            in \<lparr> score = sc,
                 confidence = Some (calculateConfidenceFromAI k aiAnalysis),
                 verdict = determineVerdict k sc,
                 res_count = g_count aiAnalysis,
                 res_examples = g_examples aiAnalysis,
                 res_quality = g_quality aiAnalysis,
                 res_breakdown = g_breakdown aiAnalysis,
                 res_bySeverity = g_bySeverity aiAnalysis,
                 res_aiReasoning = g_aiReasoning aiAnalysis,
                 analysisMethod = ai_method aiAnalysis,
                 promptsAnalyzed = Some (length todo),
                 debuggingSessionCount =
                   (if k = DebuggingReasoning then Some debuggingSessions else None),
                 aiSuccessRate = Some (successRate aiAnalysis),
                 res_error = None \<rparr>))"

section \<open>Scoring engine\<close>

subsection \<open>The analysis data\<close>

text \<open>
  The argument of \<^verbatim>\<open>calculateDeveloperScore\<close>, with the fields that the five scoring
  methods read. A field that the source reads through \<^verbatim>\<open>?.\<close>, \<^verbatim>\<open>|| 0\<close> or an
  \<^verbatim>\<open>if\<close> on its presence is an \<open>option\<close>. Numbers are finite.
\<close>

record combined_insights =
  confidence_score :: "rat option"
  green_flags :: "string list option"
  red_flags :: "string list option"

record rule_based_metrics =
  technical_term_count :: "nat option"
  has_file_refs :: bool

record semantic_analysis =
  sa_combined_insights :: "combined_insights option"
  sa_rule_based_metrics :: "rule_based_metrics option"

record edit_coherence =
  coherence_score :: rat
  focused_edits :: rat
  scattered_edits :: rat

record reversal_analysis =
  reversal_score :: rat
  rev_red_flag :: bool

record pattern_analysis =
  pa_edit_coherence :: "edit_coherence option"
  pa_iteration_score :: "rat option"
  pa_reversal_analysis :: "reversal_analysis option"
  pa_productivity_score :: "rat option"

record detected_pattern =
  dp_type :: string
  dp_severity :: string

record score_data =
  semanticAnalyses :: "semantic_analysis list option"
  correlations :: "correlation list option"
  patternAnalysis :: "pattern_analysis option"
  antiPatterns :: "detected_pattern list option"
  positivePatterns :: "detected_pattern list option"

text \<open>
  \<open>pa_iteration_score\<close> is \<^verbatim>\<open>patternAnalysis.iteration_analysis.iteration_score\<close> and
  \<open>pa_productivity_score\<close> is \<^verbatim>\<open>patternAnalysis.productivity_metrics.productivity_score\<close>,
  absent when the enclosing object is.
\<close>

subsection \<open>The five sub-scores\<close>

text \<open>\<^verbatim>\<open>Math.round(Math.max(0, Math.min(100, score)))\<close>, the last line of each method.\<close>

definition clamp_round :: "rat \<Rightarrow> rat" where
  "clamp_round x = round_half_up (max 0 (min 100 x))"

text \<open>\<^verbatim>\<open>x || 0\<close> on a number that may be absent.\<close>

definition or_zero :: "rat option \<Rightarrow> rat" where
  "or_zero x = (case x of None \<Rightarrow> 0 | Some v \<Rightarrow> v)"

text \<open>\<^verbatim>\<open>xs?.length || 0\<close>.\<close>

definition length_or_zero :: "'a list option \<Rightarrow> nat" where
  "length_or_zero xs = (case xs of None \<Rightarrow> 0 | Some l \<Rightarrow> length l)"

definition scorePromptQuality :: "semantic_analysis list option \<Rightarrow> rat" where
  "scorePromptQuality sas =
     (case sas of
        None \<Rightarrow> 50
      | Some analyses \<Rightarrow>
          if analyses = [] then 50
          else (let insights = List.map_filter sa_combined_insights analyses;
                    totalConfidence = sum_list (map (\<lambda>i. or_zero (confidence_score i)) insights);
                    totalGreenFlags = sum_list (map (\<lambda>i. length_or_zero (green_flags i)) insights);
                    totalRedFlags = sum_list (map (\<lambda>i. length_or_zero (red_flags i)) insights);
                    avgConfidence = totalConfidence / of_nat (length analyses);
                    flagRatio = (if 0 < totalRedFlags
                                 then of_nat totalGreenFlags / of_nat totalRedFlags
                                 else of_nat totalGreenFlags);
                    sc = avgConfidence * (7 / 10) + min (flagRatio * 10) 30
                in clamp_round sc))"

text \<open>\<^verbatim>\<open>(part.length / all.length) * 100\<close> for a non-empty \<open>all\<close>.\<close>

definition rate :: "'a list \<Rightarrow> 'a list \<Rightarrow> rat" where
  "rate part all = of_nat (length part) / of_nat (length all) * 100"

definition to_lower :: "char \<Rightarrow> char" where
  "to_lower c = (let n = (of_char c :: nat) in if 65 \<le> n \<and> n \<le> 90 then char_of (n + 32) else c)"

text \<open>The test \<^verbatim>\<open>/^(help|please|can you|could you|how do i)/i.test(text)\<close>.\<close>

definition help_prefix :: "string \<Rightarrow> bool" where
  "help_prefix text =
     list_ex (\<lambda>w. take (length w) (map to_lower text) = w)
       [''help'', ''please'', ''can you'', ''could you'', ''how do i'']"

definition scoreSelfSufficiency :: "correlation list option \<Rightarrow> rat" where
  "scoreSelfSufficiency cs =
     (case cs of
        None \<Rightarrow> 50
      | Some corrs \<Rightarrow>
          if corrs = [] then 50
          else (let questionRate = rate (filter (\<lambda>c. str_includes (c_prompt_text c) ''?'') corrs) corrs;
                    s1 = 60 + (if 50 < questionRate then - 30
                               else if 30 < questionRate then - 15
                               else if questionRate < 20 then 10 else 0);
                    actionRate = rate (filter (\<lambda>c. 0 < s_total_edits (c_stats c)) corrs) corrs;
                    s2 = s1 + (if 70 \<le> actionRate then 20
                               else if 50 \<le> actionRate then 10
                               else if actionRate < 30 then - 15 else 0);
                    helpRate = rate (filter (\<lambda>c. help_prefix (c_prompt_text c)) corrs) corrs;
                    s3 = s2 + (if 40 < helpRate then - 20
                               else if helpRate < 20 then 10 else 0)
                in clamp_round s3))"

definition has_type :: "detected_pattern list \<Rightarrow> string \<Rightarrow> bool" where
  "has_type ps ty = list_ex (\<lambda>p. dp_type p = ty) ps"

text \<open>\<^verbatim>\<open>a.rule_based_metrics?.technical_term_count >= 2\<close>: false when a part is absent.\<close>

definition is_technical :: "semantic_analysis \<Rightarrow> bool" where
  "is_technical a =
     (case sa_rule_based_metrics a of
        None \<Rightarrow> False
      | Some m \<Rightarrow> (case technical_term_count m of None \<Rightarrow> False | Some n \<Rightarrow> 2 \<le> n))"

definition refers_to_file :: "semantic_analysis \<Rightarrow> bool" where
  "refers_to_file a = (case sa_rule_based_metrics a of None \<Rightarrow> False | Some m \<Rightarrow> has_file_refs m)"

definition scoreTechnicalDepth :: "semantic_analysis list option \<Rightarrow> detected_pattern list option \<Rightarrow> rat" where
  "scoreTechnicalDepth sas pps =
     (let s0 = 50;
          s1 = (case sas of
                  None \<Rightarrow> s0
                | Some analyses \<Rightarrow>
                    if analyses = [] then s0
                    else (let techRate = rate (filter is_technical analyses) analyses;
                              t1 = s0 + (if 60 \<le> techRate then 25
                                         else if 40 \<le> techRate then 15
                                         else if techRate < 20 then - 15 else 0);
                              fileRefRate = rate (filter refers_to_file analyses) analyses
                          in t1 + (if 50 \<le> fileRefRate then 15
                                   else if 30 \<le> fileRefRate then 10 else 0)));
          s2 = (case pps of
                  None \<Rightarrow> s1
                | Some ps \<Rightarrow>
                    s1 + bonus (has_type ps ''architectural_thinking'') 15
                       + bonus (has_type ps ''testing_awareness'') 10
                       + bonus (has_type ps ''technical_specificity'') 10)
      in clamp_round s2)"

definition scoreCodeCoherence :: "pattern_analysis option \<Rightarrow> rat" where
  "scoreCodeCoherence pa =
     (case pa of
        None \<Rightarrow> 50
      | Some p \<Rightarrow>
          (let s1 = (case pa_edit_coherence p of
                       None \<Rightarrow> 50
                     | Some ec \<Rightarrow> coherence_score ec * (4 / 10)
                                  + bonus (scattered_edits ec < focused_edits ec) 15);
               s2 = (case pa_iteration_score p of
                       None \<Rightarrow> s1
                     | Some it \<Rightarrow> s1 + it * (3 / 10));
               s3 = (case pa_reversal_analysis p of
                       None \<Rightarrow> s2
                     | Some rv \<Rightarrow> s2 + reversal_score rv * (3 / 10)
                                     - bonus (rev_red_flag rv) 20)
           in clamp_round s3))"

definition anti_penalty :: "rat \<Rightarrow> detected_pattern \<Rightarrow> rat" where
  "anti_penalty sc p =
     (if dp_severity p = ''high'' then sc - 15
      else if dp_severity p = ''medium'' then sc - 10 else sc - 5)"

definition positive_bonus :: "rat \<Rightarrow> detected_pattern \<Rightarrow> rat" where
  "positive_bonus sc p =
     (if dp_type p = ''architectural_thinking'' then sc + 15
      else if dp_type p = ''testing_awareness'' then sc + 12
      else if dp_type p = ''improving_specificity'' then sc + 10 else sc + 8)"

definition scoreUnderstanding ::
  "detected_pattern list option \<Rightarrow> detected_pattern list option \<Rightarrow> pattern_analysis option \<Rightarrow> rat" where
  "scoreUnderstanding aps pps pa =
     (let s1 = (case aps of None \<Rightarrow> 60 | Some ps \<Rightarrow> foldl anti_penalty 60 ps);
          s2 = (case pps of None \<Rightarrow> s1 | Some ps \<Rightarrow> foldl positive_bonus s1 ps);
          s3 = (case pa of
                  None \<Rightarrow> s2
                | Some p \<Rightarrow> (case pa_productivity_score p of
                               None \<Rightarrow> s2
                             | Some prodScore \<Rightarrow> s2 + (prodScore - 50) * (2 / 10)))
      in clamp_round s3)"

subsection \<open>The score bundle\<close>

record scores =
  prompt_quality :: rat
  self_sufficiency :: rat
  technical_depth :: rat
  code_coherence :: rat
  understanding :: rat
  overall :: rat

definition calculateDeveloperScore :: "score_data \<Rightarrow> scores" where
  "calculateDeveloperScore d =
     (let pq = scorePromptQuality (semanticAnalyses d);
          ss = scoreSelfSufficiency (correlations d);
          td = scoreTechnicalDepth (semanticAnalyses d) (positivePatterns d);
          cc = scoreCodeCoherence (patternAnalysis d);
          un = scoreUnderstanding (antiPatterns d) (positivePatterns d) (patternAnalysis d)
      in \<lparr> prompt_quality = pq, self_sufficiency = ss, technical_depth = td,
           code_coherence = cc, understanding = un,
           overall = round_half_up (pq * (2 / 10) + ss * (2 / 10) + td * (2 / 10)
                                    + cc * (2 / 10) + un * (2 / 10)) \<rparr>)"

section \<open>The result store\<close>

text \<open>
  The table \<^verbatim>\<open>analysis_results\<close> of \<^verbatim>\<open>background-analyzer.js\<close>: an automatically
  numbered \<^verbatim>\<open>id\<close> and the constraint \<^verbatim>\<open>UNIQUE(conversation_id, analyzer_name)\<close>.
  \<open>row_analysis_data\<close> stands for the text \<^verbatim>\<open>JSON.stringify(result)\<close>, \<open>t_seq\<close> for the
  largest \<^verbatim>\<open>id\<close> given out so far. The columns declared \<^verbatim>\<open>NOT NULL\<close> are not
  optional in the model: the two names and the clock reading are strings, and the score
  of an analyzer's result is always a number.
\<close>

record result_row =
  row_id :: nat
  row_conversation_id :: string
  row_analyzer_name :: string
  row_score :: rat
  row_verdict :: string
  row_confidence :: "rat option"
  row_analysis_data :: analyzer_result
  row_analyzed_at :: string

record results_table =
  t_rows :: "result_row list"
  t_seq :: nat

text \<open>\<^verbatim>\<open>CREATE TABLE IF NOT EXISTS\<close>: an existing table is kept as it is.\<close>

definition initializeDatabase :: "results_table option \<Rightarrow> results_table" where
  "initializeDatabase existing =
     (case existing of None \<Rightarrow> \<lparr> t_rows = [], t_seq = 0 \<rparr> | Some t \<Rightarrow> t)"

definition row_key :: "result_row \<Rightarrow> string \<times> string" where
  "row_key r = (row_conversation_id r, row_analyzer_name r)"

text \<open>
  \<^verbatim>\<open>storeResult\<close>: \<^verbatim>\<open>INSERT OR REPLACE\<close> deletes the rows that the new row would
  conflict with under the \<^verbatim>\<open>UNIQUE\<close> constraint and then inserts the new row under a
  fresh \<^verbatim>\<open>id\<close>. \<open>now\<close> is the clock reading \<^verbatim>\<open>new Date().toISOString()\<close>.
\<close>

definition storeResult :: "results_table \<Rightarrow> string \<Rightarrow> string \<Rightarrow> analyzer_result \<Rightarrow> string \<Rightarrow> results_table" where
  "storeResult t conversationId analyzerName result now =
     \<lparr> t_rows = filter (\<lambda>r. row_key r \<noteq> (conversationId, analyzerName)) (t_rows t) @
                [\<lparr> row_id = t_seq t + 1,
                   row_conversation_id = conversationId,
                   row_analyzer_name = analyzerName,
                   row_score = score result,
                   row_verdict = verdict result,
                   row_confidence = confidence result,
                   row_analysis_data = result,
                   row_analyzed_at = now \<rparr>],
       t_seq = t_seq t + 1 \<rparr>"

record store_call =
  sc_conversationId :: string
  sc_analyzerName :: string
  sc_result :: analyzer_result
  sc_now :: string

definition apply_store :: "results_table \<Rightarrow> store_call \<Rightarrow> results_table" where
  "apply_store t c = storeResult t (sc_conversationId c) (sc_analyzerName c) (sc_result c) (sc_now c)"

definition store_all :: "results_table \<Rightarrow> store_call list \<Rightarrow> results_table" where
  "store_all t calls = foldl apply_store t calls"

definition call_key :: "store_call \<Rightarrow> string \<times> string" where
  "call_key c = (sc_conversationId c, sc_analyzerName c)"

text \<open>What a row holds besides its \<^verbatim>\<open>id\<close>.\<close>

definition row_contents :: "result_row \<Rightarrow> string \<times> string \<times> rat \<times> string \<times> rat option \<times> analyzer_result \<times> string" where
  "row_contents r = (row_conversation_id r, row_analyzer_name r, row_score r, row_verdict r,
                     row_confidence r, row_analysis_data r, row_analyzed_at r)"

definition call_contents :: "store_call \<Rightarrow> string \<times> string \<times> rat \<times> string \<times> rat option \<times> analyzer_result \<times> string" where
  "call_contents c = (sc_conversationId c, sc_analyzerName c, score (sc_result c),
                      verdict (sc_result c), confidence (sc_result c), sc_result c, sc_now c)"

text \<open>\<^verbatim>\<open>SELECT * FROM analysis_results WHERE conversation_id = ? AND analyzer_name = ?\<close>.\<close>

definition rows_for :: "results_table \<Rightarrow> string \<times> string \<Rightarrow> result_row list" where
  "rows_for t key = filter (\<lambda>r. row_key r = key) (t_rows t)"

section \<open>Notions used in the statements\<close>






text \<open>A prompt is long enough to be judged when its text has at least 10 characters.\<close>

definition long_enough :: "prompt \<Rightarrow> bool" where
  "long_enough p = (10 \<le> length (p_prompt_text p))"

definition in_range :: "rat \<Rightarrow> rat \<Rightarrow> rat \<Rightarrow> bool" where
  "in_range lo hi x = (lo \<le> x \<and> x \<le> hi)"

section \<open>Sample data\<close>

text \<open>
  The timestamp text of second \<open>t\<close> (below 60) of the minute 12:00 UTC of
  1 January 2025, as \<^verbatim>\<open>CURRENT_TIMESTAMP\<close> writes it.
\<close>

definition secs :: "nat \<Rightarrow> string" where
  "secs t = [''0123456789'' ! (t div 10), ''0123456789'' ! (t mod 10)]"

definition jan :: "nat \<Rightarrow> string" where
  "jan t = ''2025-01-01 12:00:'' @ secs t"


definition sample_prompt :: "nat \<Rightarrow> nat \<Rightarrow> prompt" where
  "sample_prompt n t = \<lparr> p_id = n, p_conversation_id = ''c1'', p_prompt_text = ''add a login form'',
                          p_source = Some ''cursor'', p_timestamp = jan t,
                          p_prompt_sequence_number = Some n, p_is_debugging = False \<rparr>"






text \<open>An entry of a file's edit history with the given old and new content.\<close>

definition hist :: "string option \<Rightarrow> string option \<Rightarrow> history_entry" where
  "hist old new = \<lparr> h_prompt_id = 1, h_prompt_text = ''edit it'', h_timestamp = jan 0,
                    h_old_string = old, h_new_string = new \<rparr>"

text \<open>A regular expression engine under which no pattern matches.\<close>

definition no_rx :: regex_test where
  "no_rx k ty i text = False"

text \<open>A capability that always answers with the JSON object \<^verbatim>\<open>{}\<close>.\<close>

definition always_parsed :: capability where
  "always_parsed n text = Parsed []"

text \<open>A capability whose every call fails (the service is not running).\<close>

definition always_failing :: capability where
  "always_failing n text = CallFailed"

definition short_prompt :: prompt where
  "short_prompt = \<lparr> p_id = 7, p_conversation_id = ''c1'', p_prompt_text = ''fix it'',
                     p_source = Some ''cursor'', p_timestamp = jan 0,
                     p_prompt_sequence_number = Some 7, p_is_debugging = False \<rparr>"

definition sample_result :: "rat \<Rightarrow> analyzer_result" where
  "sample_result s = (no_prompts_result MistakeCatcher)\<lparr> score := s, res_error := None \<rparr>"

definition sample_call :: "string \<Rightarrow> rat \<Rightarrow> string \<Rightarrow> store_call" where
  "sample_call name s now = \<lparr> sc_conversationId = ''c1'', sc_analyzerName = name,
                               sc_result = sample_result s, sc_now = now \<rparr>"

chapter \<open>Verified properties\<close>

section \<open>Auxiliary facts about strings and sets\<close>

lemma split_ws_nonempty: "split_ws s \<noteq> []"
  by (induction s rule: split_ws.induct) (auto split: list.splits)

lemma length_new_Set: "length (new_Set xs) = card (set xs)"
  by (simp add: new_Set_def length_remdups_card_conv)

lemma set_new_Set: "set (new_Set xs) = set xs"
  by (simp add: new_Set_def)

lemma new_Set_eq_Nil: "new_Set xs = [] \<longleftrightarrow> xs = []"
  by (simp add: new_Set_def)

section \<open>Similarity of two empty strings (C4)\<close>

text \<open>
  The token list of any string has at least one element, so the union of the two token
  sets is never empty: the quotient is a finite number between 0 and 1.
\<close>

lemma calculateSimilarity_ratio:
  "\<exists>q. calculateSimilarity a b = Num q \<and> 0 \<le> q \<and> q \<le> 1"
proof -
  define s1 where "s1 = new_Set (split_ws a)"
  define s2 where "s2 = new_Set (split_ws b)"
  define i where "i = card (set (filter (\<lambda>x. x \<in> set s2) s1))"
  define u where "u = card (set (s1 @ s2))"
  have "s1 \<noteq> []"
    by (simp add: s1_def new_Set_eq_Nil split_ws_nonempty)
  then have "set (s1 @ s2) \<noteq> {}" by simp
  then have upos: "0 < u" unfolding u_def by (simp add: card_gt_0_iff)
  have "set (filter (\<lambda>x. x \<in> set s2) s1) \<subseteq> set (s1 @ s2)" by auto
  then have iu: "i \<le> u" unfolding i_def u_def by (intro card_mono) simp_all
  have eq: "calculateSimilarity a b = js_div (of_nat i) (of_nat u)"
    by (simp add: calculateSimilarity_def Let_def length_new_Set i_def u_def s1_def s2_def)
  have "js_div (of_nat i) (of_nat u) = Num (of_nat i / of_nat u)"
    using upos by (simp add: js_div_def)
  moreover have "(0::rat) \<le> of_nat i / of_nat u" by simp
  moreover have "(of_nat i / of_nat u :: rat) \<le> 1" using iu upos by (simp add: divide_le_eq_1)
  ultimately show ?thesis using eq by auto
qed

text \<open>
  C4 as stated fails: \<^verbatim>\<open>calculateSimilarity("", "")\<close> is not 0. Both strings split
  into the one-token list holding the empty token, the intersection and the union have
  one element each, and the result is 1.
\<close>

theorem calculateSimilarity_empty_counterexample: "calculateSimilarity [] [] \<noteq> Num 0"
  by (simp add: calculateSimilarity_def new_Set_def js_div_def)

text \<open>
  C4, amended: when both argument strings are empty, \<^verbatim>\<open>calculateSimilarity\<close> returns 1;
  and for all arguments the union of the token sets has at least one element, so the
  division never divides by zero and the result is a finite number from 0 to 1, never
  \<^verbatim>\<open>NaN\<close>.
\<close>

theorem calculateSimilarity_empty:
  "calculateSimilarity [] [] = Num 1 \<and>
   (\<exists>q. calculateSimilarity a b = Num q \<and> 0 \<le> q \<and> q \<le> 1)"
  using calculateSimilarity_ratio [of a b]
  by (simp add: calculateSimilarity_def new_Set_def js_div_def)

section \<open>Effectiveness of an empty correlation list (C5)\<close>

text \<open>
  C5: for the empty correlation list the claim expects an effectiveness score of 0 and no
  \<^verbatim>\<open>NaN\<close>. The two averages are guarded by \<^verbatim>\<open>prompts_with_edits > 0\<close> and by
  \<^verbatim>\<open>timeCount > 0\<close>; the effectiveness score is not guarded: it is
  \<^verbatim>\<open>Math.round((0 / 0) * 100)\<close>, which is \<^verbatim>\<open>NaN\<close>. Every other field is the number 0.
\<close>

theorem analyzeEffectiveness_empty:
  "effectiveness_score (analyzeEffectiveness []) = NaN \<and>
   total_prompts (analyzeEffectiveness []) = 0 \<and>
   prompts_with_edits (analyzeEffectiveness []) = 0 \<and>
   prompts_without_edits (analyzeEffectiveness []) = 0 \<and>
   avg_edits_per_prompt (analyzeEffectiveness []) = NumberVal (Num 0) \<and>
   avg_files_per_prompt (analyzeEffectiveness []) = NumberVal (Num 0) \<and>
   avg_time_to_first_edit (analyzeEffectiveness []) = Num 0"
  by (simp add: analyzeEffectiveness_def js_div_def)

section \<open>Prompt windows (C1)\<close>

lemma length_correlate_conversation:
  "length (correlate_conversation getTime conv) = length (cv_prompts conv)"
  by (simp add: correlate_conversation_def)
















section \<open>Order and timing of the related edits (C10)\<close>

text \<open>
  The conversations that the engine reads have their prompts and edits in the order of
  the stored texts.
\<close>

lemma getConversationData_prompts_sorted:
  "sorted (map p_timestamp (cv_prompts (getConversationData db cid)))"
  by (simp add: getConversationData_def Let_def)




















section \<open>Reversals (C7)\<close>

lemma isSimilarCode_same:
  "\<not> falsy_string s \<Longrightarrow> isSimilarCode s s"
  by (simp add: isSimilarCode_def)

lemma detectReversals_indices:
  "map rv_index (detectReversals h) =
     filter (\<lambda>i. isSimilarCode (h_new_string (h ! i)) (h_old_string (h ! (i - 1)))) [1..<length h]"
  by (simp add: detectReversals_def comp_def)

text \<open>
  C7 as stated fails twice. When the common string is empty, \<^verbatim>\<open>isSimilarCode\<close> returns
  false at its first line and no reversal is reported. And the loop visits every adjacent
  pair, so a history of three edits may hold a second reversal, at index 2.
\<close>

theorem detectReversals_counterexample:
  "h_new_string (hist (Some ''x'') (Some [])) = h_old_string (hist (Some []) (Some ''x'')) \<and>
   detectReversals [hist (Some []) (Some ''x''), hist (Some ''x'') (Some [])] = [] \<and>
   h_new_string (hist (Some ''b'') (Some ''a'')) = h_old_string (hist (Some ''a'') (Some ''b'')) \<and>
   map rv_index (detectReversals [hist (Some ''a'') (Some ''b''), hist (Some ''b'') (Some ''a''),
                                  hist (Some ''a'') (Some ''b'')]) = [1, 2]"
  by (simp add: detectReversals_def hist_def isSimilarCode_def falsy_string_def
      upt_rec [of 1] upt_rec [of 2])

text \<open>
  C7, amended: for an edit history of at least two edits in which the new content of
  edit 1 equals the old content of edit 0 and that content is not empty, the first
  reversal that \<^verbatim>\<open>detectReversals\<close> returns is at index 1; it is the only one when the
  history has exactly two edits; and in general the reported indices are exactly the
  \<open>i \<ge> 1\<close> for which the new content of edit \<open>i\<close> is similar to the old content of edit
  \<open>i - 1\<close>.
\<close>

theorem detectReversals_exact_match:
  assumes "2 \<le> length h"
    and "h_new_string (h ! 1) = h_old_string (h ! 0)"
    and "\<not> falsy_string (h_old_string (h ! 0))"
  shows "detectReversals h \<noteq> [] \<and> rv_index (hd (detectReversals h)) = 1 \<and>
         (length h = 2 \<longrightarrow> map rv_index (detectReversals h) = [1]) \<and>
         (\<forall>i. i \<in> set (map rv_index (detectReversals h)) \<longleftrightarrow>
              1 \<le> i \<and> i < length h \<and>
              isSimilarCode (h_new_string (h ! i)) (h_old_string (h ! (i - 1))))"
proof -
  let ?P = "\<lambda>i. isSimilarCode (h_new_string (h ! i)) (h_old_string (h ! (i - 1)))"
  have P1: "?P 1" using assms(2,3) by (simp add: isSimilarCode_same)
  have upt: "[1..<length h] = 1 # [2..<length h]"
    using assms(1) upt_conv_Cons [of 1 "length h"] by (simp add: numeral_2_eq_2)
  have idx: "map rv_index (detectReversals h) = 1 # filter ?P [2..<length h]"
    using P1 by (simp only: detectReversals_indices upt filter.simps if_True)
  have ne: "detectReversals h \<noteq> []" using idx by auto
  have "hd (map rv_index (detectReversals h)) = 1" using idx by simp
  then have hd1: "rv_index (hd (detectReversals h)) = 1" using ne by (simp add: hd_map)
  have two: "length h = 2 \<longrightarrow> map rv_index (detectReversals h) = [1]" using idx by simp
  have char: "\<forall>i. i \<in> set (map rv_index (detectReversals h)) \<longleftrightarrow>
              1 \<le> i \<and> i < length h \<and> ?P i"
    by (auto simp add: detectReversals_indices)
  show ?thesis using ne hd1 two char by blast
qed

theorem detectReversals_exact_match_witness:
  "2 \<le> length [hist (Some ''a'') (Some ''b''), hist (Some ''b'') (Some ''a'')] \<and>
   \<not> falsy_string (h_old_string (hist (Some ''a'') (Some ''b''))) \<and>
   map rv_index (detectReversals [hist (Some ''a'') (Some ''b''), hist (Some ''b'') (Some ''a'')]) = [1]"
  using detectReversals_exact_match [of "[hist (Some ''a'') (Some ''b''), hist (Some ''b'') (Some ''a'')]"]
  by (simp add: hist_def falsy_string_def)

section \<open>The result store is an upsert (C8)\<close>


lemma row_key_new_row [simp]:
  "row_key \<lparr> row_id = i, row_conversation_id = c, row_analyzer_name = n, row_score = s,
             row_verdict = v, row_confidence = cf, row_analysis_data = d,
             row_analyzed_at = a \<rparr> = (c, n)"
  by (simp add: row_key_def)

lemma distinct_storeResult:
  assumes "distinct (map row_key (t_rows t))"
  shows "distinct (map row_key (t_rows (storeResult t c n r now)))"
  using assms by (auto simp add: storeResult_def distinct_map_filter)

lemma rows_for_storeResult:
  "map row_contents (rows_for (apply_store t c) key) =
     (if call_key c = key then [call_contents c] else map row_contents (rows_for t key))"
proof (cases "call_key c = key")
  case True
  then show ?thesis
    by (auto simp add: rows_for_def apply_store_def storeResult_def call_key_def
        row_contents_def call_contents_def)
next
  case False
  then have "filter (\<lambda>x. row_key x \<noteq> call_key c \<and> row_key x = key) (t_rows t) =
             filter (\<lambda>r. row_key r = key) (t_rows t)"
    by (intro filter_cong) auto
  with False show ?thesis
    by (auto simp add: rows_for_def apply_store_def storeResult_def call_key_def)
qed

lemma store_all_snoc: "store_all t (calls @ [c]) = apply_store (store_all t calls) c"
  by (simp add: store_all_def)

lemma distinct_store_all:
  "distinct (map row_key (t_rows t)) \<Longrightarrow> distinct (map row_key (t_rows (store_all t calls)))"
  by (induction calls rule: rev_induct)
     (simp_all add: store_all_snoc apply_store_def distinct_storeResult, simp add: store_all_def)

lemma rows_for_store_all:
  "map row_contents (rows_for (store_all t calls) key) =
     (case find (\<lambda>c. call_key c = key) (rev calls) of
        Some c \<Rightarrow> [call_contents c]
      | None \<Rightarrow> map row_contents (rows_for t key))"
proof (induction calls rule: rev_induct)
  case Nil
  show ?case by (simp add: store_all_def)
next
  case (snoc c calls)
  show ?case by (simp add: store_all_snoc rows_for_storeResult snoc)
qed

lemma apply_store_twice:
  "map row_contents (t_rows (apply_store (apply_store t c) c)) =
   map row_contents (t_rows (apply_store t c))"
  by (simp add: apply_store_def storeResult_def row_contents_def)

text \<open>
  C8: storing a result is an upsert keyed by conversation id and analyzer name. From a
  table that satisfies its \<^verbatim>\<open>UNIQUE\<close> constraint, after any sequence of stores
  \<^item> no two rows have the same key, so a key selects at most one row;
  \<^item> the row of a key holds what the most recent store for that key wrote (and the rows
    of a key never stored are untouched);
  \<^item> storing the same result once more leaves every row's contents as they are: the
    last write wins.

  The contents of a row are all its columns but the automatic \<^verbatim>\<open>id\<close>.
\<close>

theorem storeResult_upsert:
  assumes "distinct (map row_key (t_rows t))"
  shows "distinct (map row_key (t_rows (store_all t calls))) \<and>
         (\<forall>key. length (rows_for (store_all t calls) key) \<le> 1) \<and>
         (\<forall>key. map row_contents (rows_for (store_all t calls) key) =
                  (case find (\<lambda>c. call_key c = key) (rev calls) of
                     Some c \<Rightarrow> [call_contents c]
                   | None \<Rightarrow> map row_contents (rows_for t key))) \<and>
         map row_contents (t_rows (apply_store (apply_store (store_all t calls) c) c)) =
           map row_contents (t_rows (apply_store (store_all t calls) c))"
proof -
  have d: "distinct (map row_key (t_rows (store_all t calls)))"
    using assms by (rule distinct_store_all)
  have "length (rows_for (store_all t calls) key) \<le> 1" for key
  proof -
    have "distinct (map row_key (rows_for (store_all t calls) key))"
      unfolding rows_for_def using d by (rule distinct_map_filter)
    moreover have "set (map row_key (rows_for (store_all t calls) key)) \<subseteq> {key}"
      by (auto simp add: rows_for_def)
    ultimately have "length (map row_key (rows_for (store_all t calls) key)) \<le> card {key}"
      by (metis card_mono distinct_card finite.emptyI finite.insertI)
    then show ?thesis by simp
  qed
  then show ?thesis
    using d rows_for_store_all [of t calls] apply_store_twice [of "store_all t calls" c] by simp
qed

theorem storeResult_upsert_witness:
  "distinct (map row_key (t_rows (initializeDatabase None))) \<and>
   map row_contents
     (rows_for (store_all (initializeDatabase None)
        [sample_call ''CriticalThinking'' 3 ''t1'', sample_call ''MistakeCatcher'' 5 ''t2'',
         sample_call ''CriticalThinking'' 7 ''t3''])
        (''c1'', ''CriticalThinking'')) =
     [call_contents (sample_call ''CriticalThinking'' 7 ''t3'')]"
  using storeResult_upsert [of "initializeDatabase None"
      "[sample_call ''CriticalThinking'' 3 ''t1'', sample_call ''MistakeCatcher'' 5 ''t2'',
        sample_call ''CriticalThinking'' 7 ''t3'']"]
  by (simp add: initializeDatabase_def call_key_def sample_call_def)

section \<open>Rounding\<close>


lemma round_half_up_ge: "of_int n \<le> x \<Longrightarrow> of_int n \<le> round_half_up x"
proof -
  assume "of_int n \<le> x"
  then have "of_int n \<le> x + 1 / 2" by simp
  then have "n \<le> \<lfloor>x + 1 / 2\<rfloor>" by (simp add: le_floor_iff)
  then show ?thesis by (simp add: round_half_up_def)
qed

lemma round_half_up_le: "x \<le> of_int n \<Longrightarrow> round_half_up x \<le> of_int n"
proof -
  assume "x \<le> of_int n"
  then have "x + 1 / 2 < of_int n + 1" by simp
  then have "\<lfloor>x + 1 / 2\<rfloor> \<le> n" by (simp only: floor_le_iff)
  then show ?thesis by (simp add: round_half_up_def)
qed

lemma clamp_round_range: "0 \<le> clamp_round x \<and> clamp_round x \<le> 100"
proof -
  have "of_int 0 \<le> max 0 (min 100 x)" by simp
  then have "of_int 0 \<le> round_half_up (max 0 (min 100 x))" by (rule round_half_up_ge)
  moreover have "max 0 (min 100 x) \<le> of_int 100" by simp
  then have "round_half_up (max 0 (min 100 x)) \<le> of_int 100" by (rule round_half_up_le)
  ultimately show ?thesis by (simp add: clamp_round_def)
qed

section \<open>The loop over the prompts\<close>

lemma loop_step_short: "\<not> long_enough p \<Longrightarrow> loop_step rx ai k st p = st"
  by (simp add: loop_step_def long_enough_def Let_def)

lemma foldl_loop_filter:
  "foldl (loop_step rx ai k) st ps = foldl (loop_step rx ai k) st (filter long_enough ps)"
  by (induction ps arbitrary: st) (simp_all add: loop_step_short)

lemma calls_loop_step:
  "long_enough p \<Longrightarrow> l_calls (loop_step rx ai k st p) = l_calls st @ [p_prompt_text p]"
  by (simp add: loop_step_def long_enough_def Let_def)

lemma calls_foldl:
  "l_calls (foldl (loop_step rx ai k) st ps) =
     l_calls st @ map p_prompt_text (filter long_enough ps)"
  by (induction ps arbitrary: st) (simp_all add: loop_step_short calls_loop_step)

lemma counts_loop_step:
  "long_enough p \<Longrightarrow>
   l_aiSuccessCount (loop_step rx ai k st p) + l_fallbackCount (loop_step rx ai k st p) =
     Suc (l_aiSuccessCount st + l_fallbackCount st)"
  by (simp add: loop_step_def long_enough_def Let_def)

lemma counts_foldl:
  "l_aiSuccessCount (foldl (loop_step rx ai k) st ps) + l_fallbackCount (foldl (loop_step rx ai k) st ps) =
     l_aiSuccessCount st + l_fallbackCount st + length (filter long_enough ps)"
  by (induction ps arbitrary: st) (simp_all add: loop_step_short counts_loop_step)


section \<open>Quality of the findings\<close>

lemma bonus_nonneg: "0 \<le> n \<Longrightarrow> 0 \<le> bonus b n"
  by (simp add: bonus_def)

lemma quality_validate: "0 \<le> an_qualityScore (validate k obj)"
  by (simp add: validate_def split: option.splits json.splits)

lemma quality_default: "an_qualityScore (getDefaultResponse k reason) = 0"
  by (simp add: getDefaultResponse_def)

lemma quality_rule: "0 \<le> an_qualityScore (ruleBasedAnalysis rx k text)"
  by (simp add: ruleBasedAnalysis_def bonus_nonneg split: analyzer.splits option.splits)

lemma quality_analysis: "0 \<le> an_qualityScore (analyzePromptWithAI rx k r text)"
  by (simp add: analyzePromptWithAI_def quality_validate quality_default quality_rule
      split: reply.splits)

lemma parseError_rule: "\<not> an_parseError (ruleBasedAnalysis rx k text)"
  by (simp add: ruleBasedAnalysis_def split: analyzer.splits option.splits)

lemma findings_loop_step:
  assumes "\<forall>f\<in>set (l_analyses st). 0 \<le> f_qualityScore f"
  shows "\<forall>f\<in>set (l_analyses (loop_step rx ai k st p)). 0 \<le> f_qualityScore f"
  using assms by (auto simp add: loop_step_def Let_def quality_analysis)

lemma findings_foldl:
  "\<forall>f\<in>set (l_analyses st). 0 \<le> f_qualityScore f \<Longrightarrow>
   \<forall>f\<in>set (l_analyses (foldl (loop_step rx ai k) st ps)). 0 \<le> f_qualityScore f"
proof (induction ps arbitrary: st)
  case Nil
  then show ?case by simp
next
  case (Cons p ps)
  from Cons.prems have "\<forall>f\<in>set (l_analyses (loop_step rx ai k st p)). 0 \<le> f_qualityScore f"
    by (rule findings_loop_step)
  then show ?case using Cons.IH by simp
qed

lemma findings_run_loop:
  "f \<in> set (l_analyses (run_loop rx ai k ps)) \<Longrightarrow> 0 \<le> f_qualityScore f"
  using findings_foldl [of initial_state rx ai k ps]
  by (simp add: run_loop_def initial_state_def)

lemma quality_aggregate:
  assumes "\<And>f. f \<in> set (l_analyses st) \<Longrightarrow> 0 \<le> f_qualityScore f"
  shows "0 \<le> g_quality (aggregate k n st)"
proof -
  have "0 \<le> sum_list (map f_qualityScore (l_analyses st))"
    using assms by (intro sum_list_nonneg) auto
  then show ?thesis by (simp add: aggregate_def Let_def)
qed

lemma quality_analyzeAll: "0 \<le> g_quality (analyzeAllPromptsWithAI rx ai k ps)"
  unfolding analyzeAllPromptsWithAI_def
  by (rule quality_aggregate) (rule findings_run_loop)

section \<open>Ranges of score and confidence\<close>

lemma count_steps_nonneg: "0 \<le> a \<Longrightarrow> 0 \<le> b \<Longrightarrow> 0 \<le> c \<Longrightarrow> 0 \<le> count_steps n a b c"
  by (simp add: count_steps_def)

lemma calculateScoreFromAI_range:
  assumes "0 \<le> g_quality a"
  shows "0 \<le> calculateScoreFromAI k a \<and> calculateScoreFromAI k a \<le> 10"
proof (cases "allAnalyses a = []")
  case True
  then show ?thesis by (simp add: calculateScoreFromAI_def)
next
  case False
  define extra where "extra = (if k = MistakeCatcher
                         then min 2 (of_nat (highSeverityCount a) * (1 / 2))
                         else min 2 (of_nat (length (g_breakdown a)) * (1 / 2 :: rat)))"
  define total where "total = min 10 (count_steps (g_count a) 4 3 2 + g_quality a / 10 * 4 + extra)"
  have e: "0 \<le> extra" by (simp add: extra_def)
  have c: "0 \<le> count_steps (g_count a) 4 3 2" by (simp add: count_steps_nonneg)
  have q: "0 \<le> g_quality a / 10 * 4" using assms by simp
  have t0: "0 \<le> total" unfolding total_def using e c q by simp
  have t1: "total \<le> 10" unfolding total_def by simp
  have "of_int 0 \<le> total * 10" using t0 by simp
  then have r0: "of_int 0 \<le> round_half_up (total * 10)" by (rule round_half_up_ge)
  have "total * 10 \<le> of_int 100" using t1 by simp
  then have r1: "round_half_up (total * 10) \<le> of_int 100" by (rule round_half_up_le)
  have "calculateScoreFromAI k a = round_half_up (total * 10) / 10"
    using False by (simp add: calculateScoreFromAI_def Let_def total_def extra_def)
  then show ?thesis using r0 r1 by simp
qed

lemma calculateConfidenceFromAI_range:
  "3 / 10 \<le> calculateConfidenceFromAI k a \<and> calculateConfidenceFromAI k a \<le> 95 / 100"
proof -
  define c1 where "c1 = 3 / 10 + count_steps (g_count a) (3 / 10) (2 / 10) (1 / 10)"
  define c2 where "c2 = c1 + (if k = MistakeCatcher
                     then (if 2 \<le> highSeverityCount a then 2 / 10
                           else if 1 \<le> highSeverityCount a then 1 / 10 else 0)
                     else (if 3 \<le> length (g_breakdown a) then 2 / 10
                           else if 2 \<le> length (g_breakdown a) then 1 / 10 else (0::rat)))"
  define c3 where "c3 = c2 + (if 8 / 10 < successRate a then 15 / 100
                     else if 5 / 10 < successRate a then 5 / 100 else (0::rat))"
  have "3 / 10 \<le> c1" unfolding c1_def by (simp add: count_steps_nonneg)
  then have "3 / 10 \<le> c2" unfolding c2_def by simp
  then have "3 / 10 \<le> c3" unfolding c3_def by simp
  then have "of_int 30 \<le> c3 * 100" by simp
  then have "of_int 30 \<le> round_half_up (c3 * 100)" by (rule round_half_up_ge)
  then have lo: "3 / 10 \<le> round_half_up (c3 * 100) / 100" by simp
  have "calculateConfidenceFromAI k a = min (95 / 100) (round_half_up (c3 * 100) / 100)"
    by (simp add: calculateConfidenceFromAI_def Let_def c3_def c2_def c1_def)
  then show ?thesis using lo by simp
qed

lemma analyze_score_range:
  "0 \<le> score (analyze rx ai k n prompts) \<and> score (analyze rx ai k n prompts) \<le> 10"
  using calculateScoreFromAI_range [OF quality_analyzeAll, of k rx ai k "promptsToAnalyze k prompts"]
  by (simp add: analyze_def Let_def no_prompts_result_def)

lemma analyze_confidence:
  "prompts \<noteq> [] \<Longrightarrow>
   confidence (analyze rx ai k n prompts) =
     Some (calculateConfidenceFromAI k (analyzeAllPromptsWithAI rx ai k (promptsToAnalyze k prompts)))"
  by (simp add: analyze_def Let_def)

lemma analyze_confidence_empty:
  "confidence (analyze rx ai k n []) = (if k = CriticalThinking then Some 0 else None)"
  by (simp add: analyze_def no_prompts_result_def)


section \<open>Ranges of the developer scores (C6)\<close>

lemma scorePromptQuality_range: "in_range 0 100 (scorePromptQuality sas)"
  by (simp add: in_range_def scorePromptQuality_def Let_def clamp_round_range split: option.splits)

lemma scoreSelfSufficiency_range: "in_range 0 100 (scoreSelfSufficiency cs)"
  by (simp add: in_range_def scoreSelfSufficiency_def Let_def clamp_round_range split: option.splits)

lemma scoreTechnicalDepth_range: "in_range 0 100 (scoreTechnicalDepth sas pps)"
  by (simp add: in_range_def scoreTechnicalDepth_def Let_def clamp_round_range)

lemma scoreCodeCoherence_range: "in_range 0 100 (scoreCodeCoherence pa)"
  by (simp add: in_range_def scoreCodeCoherence_def Let_def clamp_round_range split: option.splits)

lemma scoreUnderstanding_range: "in_range 0 100 (scoreUnderstanding aps pps pa)"
  by (simp add: in_range_def scoreUnderstanding_def Let_def clamp_round_range)

lemma overall_range:
  assumes "in_range 0 100 a" "in_range 0 100 b" "in_range 0 100 c" "in_range 0 100 d"
    "in_range 0 100 e"
  shows "in_range 0 100 (round_half_up (a * (2 / 10) + b * (2 / 10) + c * (2 / 10)
                                         + d * (2 / 10) + e * (2 / 10)))"
proof -
  let ?x = "a * (2 / 10) + b * (2 / 10) + c * (2 / 10) + d * (2 / 10) + e * (2 / 10)"
  have "of_int 0 \<le> ?x" using assms by (simp add: in_range_def)
  then have lo: "of_int 0 \<le> round_half_up ?x" by (rule round_half_up_ge)
  have "?x \<le> of_int 100" using assms by (simp add: in_range_def)
  then have "round_half_up ?x \<le> of_int 100" by (rule round_half_up_le)
  then show ?thesis using lo by (simp add: in_range_def)
qed

text \<open>
  C6: for every input, the five sub-scores and the overall score of
  \<^verbatim>\<open>calculateDeveloperScore\<close> lie between 0 and 100; the score that an understanding
  analyzer returns lies between 0 and 10; and the confidence that it returns lies between
  0 and 0.95. (The mistake catcher and the debugging analyzer return no confidence field
  for a conversation without prompts.)
\<close>

theorem scores_in_range:
  "in_range 0 100 (prompt_quality (calculateDeveloperScore d)) \<and>
   in_range 0 100 (self_sufficiency (calculateDeveloperScore d)) \<and>
   in_range 0 100 (technical_depth (calculateDeveloperScore d)) \<and>
   in_range 0 100 (code_coherence (calculateDeveloperScore d)) \<and>
   in_range 0 100 (understanding (calculateDeveloperScore d)) \<and>
   in_range 0 100 (overall (calculateDeveloperScore d)) \<and>
   in_range 0 10 (calculateScoreFromAI k (analyzeAllPromptsWithAI rx ai k prompts)) \<and>
   in_range 0 (95 / 100) (calculateConfidenceFromAI k (analyzeAllPromptsWithAI rx ai k prompts)) \<and>
   in_range 0 10 (score (analyze rx ai k n prompts)) \<and>
   (case confidence (analyze rx ai k n prompts) of
      None \<Rightarrow> prompts = [] \<and> k \<noteq> CriticalThinking
    | Some c \<Rightarrow> in_range 0 (95 / 100) c)"
proof -
  note sub = scorePromptQuality_range [of "semanticAnalyses d"]
    scoreSelfSufficiency_range [of "correlations d"]
    scoreTechnicalDepth_range [of "semanticAnalyses d" "positivePatterns d"]
    scoreCodeCoherence_range [of "patternAnalysis d"]
    scoreUnderstanding_range [of "antiPatterns d" "positivePatterns d" "patternAnalysis d"]
  have dev: "in_range 0 100 (prompt_quality (calculateDeveloperScore d))"
    "in_range 0 100 (self_sufficiency (calculateDeveloperScore d))"
    "in_range 0 100 (technical_depth (calculateDeveloperScore d))"
    "in_range 0 100 (code_coherence (calculateDeveloperScore d))"
    "in_range 0 100 (understanding (calculateDeveloperScore d))"
    using sub by (simp_all add: calculateDeveloperScore_def Let_def)
  have ov: "in_range 0 100 (overall (calculateDeveloperScore d))"
    using overall_range [OF sub] by (simp add: calculateDeveloperScore_def Let_def)
  have sc: "in_range 0 10 (calculateScoreFromAI k (analyzeAllPromptsWithAI rx ai k prompts))"
    using calculateScoreFromAI_range [OF quality_analyzeAll, of k rx ai k prompts]
    by (simp add: in_range_def)
  have cf: "in_range 0 (95 / 100) (calculateConfidenceFromAI k a)" for a
    using calculateConfidenceFromAI_range [of k a] by (simp add: in_range_def)
  have asc: "in_range 0 10 (score (analyze rx ai k n prompts))"
    using analyze_score_range [of rx ai k n prompts] by (simp add: in_range_def)
  have acf: "(case confidence (analyze rx ai k n prompts) of
      None \<Rightarrow> prompts = [] \<and> k \<noteq> CriticalThinking
    | Some c \<Rightarrow> in_range 0 (95 / 100) c)"
  proof (cases "prompts = []")
    case True
    then show ?thesis by (simp add: analyze_confidence_empty in_range_def)
  next
    case False
    then show ?thesis
      using cf [of "analyzeAllPromptsWithAI rx ai k (promptsToAnalyze k prompts)"]
      by (simp add: analyze_confidence)
  qed
  show ?thesis using dev ov sc cf asc acf by simp
qed

section \<open>The confidence baseline (C9)\<close>

text \<open>
  C9: for every conversation with at least one prompt, each understanding analyzer
  returns a confidence of at least 0.3 (and at most 0.95), also when it finds no relevant
  prompt.
\<close>

theorem confidence_lower_bound:
  assumes "prompts \<noteq> []"
  shows "\<exists>c. confidence (analyze rx ai k n prompts) = Some c \<and> 3 / 10 \<le> c \<and> c \<le> 95 / 100"
  using assms calculateConfidenceFromAI_range
  by (simp add: analyze_confidence)

lemma sample_not_relevant:
  "run_loop no_rx always_parsed MistakeCatcher [sample_prompt 2 0] =
     \<lparr> l_analyses = [], l_aiSuccessCount = 1, l_fallbackCount = 0,
       l_calls = [''add a login form''] \<rparr>"
  by (simp add: run_loop_def loop_step_def initial_state_def sample_prompt_def always_parsed_def
      analyzePromptWithAI_def validate_def field_truthy_def Let_def)

theorem confidence_lower_bound_witness:
  "[sample_prompt 2 0] \<noteq> [] \<and>
   res_count (analyze no_rx always_parsed MistakeCatcher 0 [sample_prompt 2 0]) = 0 \<and>
   (\<exists>c. confidence (analyze no_rx always_parsed MistakeCatcher 0 [sample_prompt 2 0]) = Some c \<and>
        3 / 10 \<le> c \<and> c \<le> 95 / 100)"
proof -
  have "res_count (analyze no_rx always_parsed MistakeCatcher 0 [sample_prompt 2 0]) = 0"
    by (simp add: analyze_def Let_def promptsToAnalyze_def analyzeAllPromptsWithAI_def
        sample_not_relevant aggregate_def)
  then show ?thesis
    using confidence_lower_bound [of "[sample_prompt 2 0]" no_rx always_parsed MistakeCatcher 0]
    by simp
qed


lemma run_loop_filter: "run_loop rx ai k ps = run_loop rx ai k (filter long_enough ps)"
  unfolding run_loop_def by (rule foldl_loop_filter)

lemma calls_run_loop:
  "l_calls (run_loop rx ai k ps) = map p_prompt_text (filter long_enough ps)"
  by (simp add: run_loop_def calls_foldl initial_state_def)

lemma counts_run_loop:
  "l_aiSuccessCount (run_loop rx ai k ps) + l_fallbackCount (run_loop rx ai k ps) =
     length (filter long_enough ps)"
  by (simp add: run_loop_def counts_foldl initial_state_def)

lemma sample_text: "p_prompt_text (sample_prompt n t) = ''add a login form''"
  by (simp add: sample_prompt_def)

lemma sample_is_long: "long_enough (sample_prompt n t)"
  by (simp add: long_enough_def sample_prompt_def)

section \<open>Failed calls and the method field (C2)\<close>

lemma failing_loop_step:
  "l_fallbackCount (loop_step rx always_failing k st p) = l_fallbackCount st"
  by (simp add: loop_step_def Let_def always_failing_def analyzePromptWithAI_def parseError_rule)

lemma failing_foldl:
  "l_fallbackCount (foldl (loop_step rx always_failing k) st ps) = l_fallbackCount st"
  by (induction ps arbitrary: st) (simp_all add: failing_loop_step)

lemma failing_run_loop: "l_fallbackCount (run_loop rx always_failing k ps) = 0"
  by (simp add: run_loop_def failing_foldl initial_state_def)

text \<open>
  C2: the claim expects every judgment that ends in a failed call to be recorded as a
  fallback sample, and the method to be \<^verbatim>\<open>"fallback"\<close> when more than half of the calls
  fail. In the code a failed call is answered by \<^verbatim>\<open>ruleBasedAnalysis\<close>, whose result
  carries \<^verbatim>\<open>parseError: false\<close>, and the loop counts a fallback only when
  \<^verbatim>\<open>parseError\<close> is set: the failed call is counted as a success of the external
  capability. With one prompt and a capability that fails on every call, the call is
  made, the fallback count stays 0, the success count is 1, the method is \<^verbatim>\<open>"ai"\<close> and
  the success rate is 1; and for any list of prompts the method is \<^verbatim>\<open>"ai"\<close> when every
  call fails.
\<close>

theorem call_failure_counted_as_success:
  "l_calls (run_loop rx always_failing k [sample_prompt 2 0]) = [''add a login form''] \<and>
   l_fallbackCount (run_loop rx always_failing k [sample_prompt 2 0]) = 0 \<and>
   l_aiSuccessCount (run_loop rx always_failing k [sample_prompt 2 0]) = 1 \<and>
   ai_method (analyzeAllPromptsWithAI rx always_failing k [sample_prompt 2 0]) = ''ai'' \<and>
   successRate (analyzeAllPromptsWithAI rx always_failing k [sample_prompt 2 0]) = 1 \<and>
   l_fallbackCount (run_loop rx always_failing k prompts) = 0 \<and>
   ai_method (analyzeAllPromptsWithAI rx always_failing k prompts) = ''ai''"
proof -
  have calls: "l_calls (run_loop rx always_failing k [sample_prompt 2 0]) = [''add a login form'']"
    by (simp add: calls_run_loop sample_is_long sample_text)
  have "l_aiSuccessCount (run_loop rx always_failing k [sample_prompt 2 0])
          + l_fallbackCount (run_loop rx always_failing k [sample_prompt 2 0]) = 1"
    by (simp add: counts_run_loop sample_is_long)
  then have succ: "l_aiSuccessCount (run_loop rx always_failing k [sample_prompt 2 0]) = 1"
    by (simp add: failing_run_loop)
  have meth: "ai_method (analyzeAllPromptsWithAI rx always_failing k ps) = ''ai''" for ps
    by (simp add: analyzeAllPromptsWithAI_def aggregate_def Let_def failing_run_loop)
  have rate: "successRate (analyzeAllPromptsWithAI rx always_failing k [sample_prompt 2 0]) = 1"
    by (simp add: analyzeAllPromptsWithAI_def aggregate_def Let_def succ)
  show ?thesis using calls succ meth rate by (simp add: failing_run_loop)
qed

section \<open>Short prompts (C3)\<close>

lemma sample_judged:
  "run_loop no_rx always_parsed CriticalThinking [sample_prompt 2 0] =
     \<lparr> l_analyses = [], l_aiSuccessCount = 1, l_fallbackCount = 0,
       l_calls = [''add a login form''] \<rparr>"
  by (simp add: run_loop_def loop_step_def initial_state_def sample_prompt_def always_parsed_def
      analyzePromptWithAI_def validate_def field_truthy_def Let_def)

lemma short_is_short: "\<not> long_enough short_prompt"
  by (simp add: long_enough_def short_prompt_def)

text \<open>
  C3 as stated fails for the success-rate denominator: it is \<^verbatim>\<open>prompts.length\<close>, which
  counts the short prompts too. One short prompt next to one judged prompt halves the
  success rate.
\<close>

theorem short_prompt_denominator_counterexample:
  "length (p_prompt_text short_prompt) < 10 \<and>
   successRate (analyzeAllPromptsWithAI no_rx always_parsed CriticalThinking
                  [short_prompt, sample_prompt 2 0]) = 1 / 2 \<and>
   successRate (analyzeAllPromptsWithAI no_rx always_parsed CriticalThinking
                  [sample_prompt 2 0]) = 1"
proof -
  have "run_loop no_rx always_parsed CriticalThinking [short_prompt, sample_prompt 2 0] =
        run_loop no_rx always_parsed CriticalThinking [sample_prompt 2 0]"
    by (simp add: run_loop_filter [of _ _ _ "[short_prompt, sample_prompt 2 0]"]
        short_is_short sample_is_long)
  then show ?thesis
    by (simp add: analyzeAllPromptsWithAI_def aggregate_def Let_def sample_judged
        short_prompt_def)
qed

text \<open>
  C3, amended: the texts submitted to the external capability are those of the prompts
  with at least 10 characters, in order, so no prompt shorter than 10 characters is
  submitted; the loop ends in the same state as on the list without the short prompts, so
  these are excluded from the success and fallback counts (which add up to the number of
  judged prompts), from the findings, their count, breakdown and mean quality, and from
  the method; the returned object differs from that for the list without the short
  prompts only in the success rate, whose denominator is the number of all prompts, the
  short ones included.
\<close>

theorem short_prompts_skipped:
  "l_calls (run_loop rx ai k prompts) = map p_prompt_text (filter long_enough prompts) \<and>
   (\<forall>text\<in>set (l_calls (run_loop rx ai k prompts)). 10 \<le> length text) \<and>
   run_loop rx ai k prompts = run_loop rx ai k (filter long_enough prompts) \<and>
   l_aiSuccessCount (run_loop rx ai k prompts) + l_fallbackCount (run_loop rx ai k prompts) =
     length (filter long_enough prompts) \<and>
   analyzeAllPromptsWithAI rx ai k prompts =
     (analyzeAllPromptsWithAI rx ai k (filter long_enough prompts))
       \<lparr> successRate :=
           (if 0 < length prompts
            then of_nat (l_aiSuccessCount (run_loop rx ai k prompts)) / of_nat (length prompts)
            else 0) \<rparr>"
proof -
  have calls: "l_calls (run_loop rx ai k prompts) = map p_prompt_text (filter long_enough prompts)"
    by (rule calls_run_loop)
  have lens: "\<forall>text\<in>set (l_calls (run_loop rx ai k prompts)). 10 \<le> length text"
    by (auto simp add: calls long_enough_def)
  have same: "run_loop rx ai k prompts = run_loop rx ai k (filter long_enough prompts)"
    by (rule run_loop_filter)
  have agg: "analyzeAllPromptsWithAI rx ai k prompts =
     (analyzeAllPromptsWithAI rx ai k (filter long_enough prompts))
       \<lparr> successRate :=
           (if 0 < length prompts
            then of_nat (l_aiSuccessCount (run_loop rx ai k prompts)) / of_nat (length prompts)
            else 0) \<rparr>"
    unfolding analyzeAllPromptsWithAI_def same [symmetric]
    by (simp add: aggregate_def Let_def)
  show ?thesis using calls lens same counts_run_loop [of rx ai k prompts] agg by blast
qed

theorem short_prompts_skipped_witness:
  "l_calls (run_loop no_rx always_parsed CriticalThinking [short_prompt, sample_prompt 2 0]) =
     [''add a login form''] \<and>
   l_aiSuccessCount (run_loop no_rx always_parsed CriticalThinking [short_prompt, sample_prompt 2 0]) +
     l_fallbackCount (run_loop no_rx always_parsed CriticalThinking [short_prompt, sample_prompt 2 0]) = 1"
proof -
  let ?ps = "[short_prompt, sample_prompt 2 0]"
  note skipped = short_prompts_skipped [of no_rx always_parsed CriticalThinking ?ps]
  from skipped have "l_calls (run_loop no_rx always_parsed CriticalThinking ?ps) =
      map p_prompt_text (filter long_enough ?ps)"
    by blast
  then have calls: "l_calls (run_loop no_rx always_parsed CriticalThinking ?ps) =
      [''add a login form'']"
    by (simp add: short_is_short sample_is_long sample_text)
  from skipped have "l_aiSuccessCount (run_loop no_rx always_parsed CriticalThinking ?ps) +
      l_fallbackCount (run_loop no_rx always_parsed CriticalThinking ?ps) =
      length (filter long_enough ?ps)"
    by blast
  then have "l_aiSuccessCount (run_loop no_rx always_parsed CriticalThinking ?ps) +
      l_fallbackCount (run_loop no_rx always_parsed CriticalThinking ?ps) = 1"
    by (simp add: short_is_short sample_is_long)
  with calls show ?thesis by simp
qed

end
